theory Spec2Isabelle
  imports Main
begin

section \<open>Booking concurrency control: a model of \<^verbatim>\<open>routes/bookings.py\<close>\<close>

text \<open>
  The handlers of \<^verbatim>\<open>routes/bookings.py\<close> are embedded as functions that take the
  contents of the store and return a response together with the new contents.
  Everything a handler obtains from outside its own text (the application's database
  handles, the lock manager, the capacity collections, the clock, generated identifiers
  and the failures of store calls) is a field of an environment record, so that each
  theorem holds for every behaviour of these collaborators.
\<close>

subsection \<open>Exceptions and responses\<close>

text \<open>
  The handlers distinguish three classes of exception:
  \<^verbatim>\<open>pymongo.errors.DuplicateKeyError\<close>, any other \<^verbatim>\<open>pymongo.errors.PyMongoError\<close>
  and any other \<^verbatim>\<open>Exception\<close>. \<^verbatim>\<open>pymongo.errors.BulkWriteError\<close> is the error of a bulk
  write such as \<^verbatim>\<open>insert_many\<close>, also when its cause is a duplicate key; it is a
  \<^verbatim>\<open>PyMongoError\<close> and not a \<^verbatim>\<open>DuplicateKeyError\<close>.
\<close>

datatype exn = DuplicateKeyError | BulkWriteError | PyMongoError | OtherException

text \<open>
  The \<^verbatim>\<open>detail\<close> texts of the handlers, in the order of the source:
  "check_in must be before check_out",
  "Selected accommodation does not accommodate g guests; capacity is c",
  "check_in and check_out must be in YYYY-MM-DD format",
  "Accommodation already booked for the selected dates",
  "Accommodation is busy; try again", "Invalid booking id", "Booking not found",
  "Database not initialized".
\<close>

datatype detail =
    CheckInBeforeCheckOut
  | CapacityExceeded int int
  | BadDateFormat
  | AlreadyBooked
  | Busy
  | InvalidBookingId
  | BookingNotFound
  | DatabaseNotInitialized

text \<open>
  A handler ends with \<^verbatim>\<open>raise HTTPException(status_code, detail)\<close> or with an exception
  that no clause of the handler catches.
\<close>

datatype error = HTTPException nat detail | Unhandled exn

fun status_code :: "error \<Rightarrow> nat option" where
  "status_code (HTTPException c d) = Some c"
| "status_code (Unhandled e) = None"

text \<open>
  The specification's error names read on the status code: a validation error is a
  400 response, a conflict error is a 409 response.
\<close>

definition is_ValidationError :: "error \<Rightarrow> bool" where
  "is_ValidationError e = (status_code e = Some 400)"

definition is_ConflictError :: "error \<Rightarrow> bool" where
  "is_ConflictError e = (status_code e = Some 409)"

subsection \<open>Python values read from capacity documents\<close>

text \<open>
  A field of a room or accommodation document is absent (or \<^verbatim>\<open>None\<close>), an integer, or
  a value that is true in a condition and on which \<^verbatim>\<open>int()\<close> raises.
\<close>

datatype pyval = PNone | PInt int | PBad

fun truthy :: "pyval \<Rightarrow> bool" where
  "truthy PNone = False"
| "truthy (PInt n) = (n \<noteq> 0)"
| "truthy PBad = True"

definition py_or :: "pyval \<Rightarrow> pyval \<Rightarrow> pyval" where
  "py_or a b = (if truthy a then a else b)"

fun py_int :: "pyval \<Rightarrow> exn + int" where
  "py_int (PInt n) = Inr n"
| "py_int PNone = Inl OtherException"
| "py_int PBad = Inl OtherException"

fun py_sum :: "('a \<Rightarrow> exn + int) \<Rightarrow> 'a list \<Rightarrow> exn + int" where
  "py_sum f [] = Inr 0"
| "py_sum f (x # xs) =
     (case f x of
        Inl e \<Rightarrow> Inl e
      | Inr n \<Rightarrow> (case py_sum f xs of Inl e \<Rightarrow> Inl e | Inr m \<Rightarrow> Inr (n + m)))"

subsection \<open>Strings and dates\<close>

text \<open>Python compares \<^verbatim>\<open>str\<close> values lexicographically by code point.\<close>

fun py_str_lt :: "string \<Rightarrow> string \<Rightarrow> bool" where
  "py_str_lt [] [] = False"
| "py_str_lt [] (y # ys) = True"
| "py_str_lt (x # xs) [] = False"
| "py_str_lt (x # xs) (y # ys) =
     (if (of_char x :: nat) < of_char y then True
      else if (of_char y :: nat) < of_char x then False
      else py_str_lt xs ys)"

definition is_digit :: "char \<Rightarrow> bool" where
  "is_digit c = (48 \<le> (of_char c :: nat) \<and> (of_char c :: nat) \<le> 57)"

definition digit_val :: "char \<Rightarrow> int" where
  "digit_val c = int (of_char c) - 48"

text \<open>
  \<^verbatim>\<open>datetime.strptime(s, "%Y-%m-%d")\<close>: four digits, a month \<^verbatim>\<open>1[0-2]|0[1-9]|[1-9]\<close>
  and a day \<^verbatim>\<open>3[0-1]|[1-2]\d|0[1-9]|[1-9]| [1-9]\<close>, separated by \<^verbatim>\<open>-\<close>, with nothing left
  over; then the date must exist. None of the three parts can hold a \<^verbatim>\<open>-\<close>, so the
  string is split at each \<^verbatim>\<open>-\<close>.
\<close>

fun split_dash :: "string \<Rightarrow> string list" where
  "split_dash [] = [[]]"
| "split_dash (c # cs) =
     (if c = CHR ''-'' then [] # split_dash cs
      else (case split_dash cs of [] \<Rightarrow> [[c]] | p # ps \<Rightarrow> (c # p) # ps))"

fun parse_year :: "string \<Rightarrow> int option" where
  "parse_year [a, b, c, d] =
     (if is_digit a \<and> is_digit b \<and> is_digit c \<and> is_digit d
      then Some (1000 * digit_val a + 100 * digit_val b + 10 * digit_val c + digit_val d)
      else None)"
| "parse_year s = None"

fun parse_month :: "string \<Rightarrow> int option" where
  "parse_month [a] = (if is_digit a \<and> a \<noteq> CHR ''0'' then Some (digit_val a) else None)"
| "parse_month [a, b] =
     (if a = CHR ''1'' \<and> is_digit b \<and> digit_val b \<le> 2 then Some (10 + digit_val b)
      else if a = CHR ''0'' \<and> is_digit b \<and> b \<noteq> CHR ''0'' then Some (digit_val b)
      else None)"
| "parse_month s = None"

fun parse_day :: "string \<Rightarrow> int option" where
  "parse_day [a] = (if is_digit a \<and> a \<noteq> CHR ''0'' then Some (digit_val a) else None)"
| "parse_day [a, b] =
     (if a = CHR ''3'' \<and> is_digit b \<and> digit_val b \<le> 1 then Some (30 + digit_val b)
      else if (a = CHR ''1'' \<or> a = CHR ''2'') \<and> is_digit b then Some (10 * digit_val a + digit_val b)
      else if (a = CHR ''0'' \<or> a = CHR '' '') \<and> is_digit b \<and> b \<noteq> CHR ''0'' then Some (digit_val b)
      else None)"
| "parse_day s = None"

definition is_leap :: "int \<Rightarrow> bool" where
  "is_leap y = (y mod 4 = 0 \<and> (y mod 100 \<noteq> 0 \<or> y mod 400 = 0))"

definition days_in_month :: "int \<Rightarrow> int \<Rightarrow> int" where
  "days_in_month y m =
     (if m = 2 then (if is_leap y then 29 else 28)
      else if m = 4 \<or> m = 6 \<or> m = 9 \<or> m = 11 then 30 else 31)"

definition days_before_year :: "int \<Rightarrow> int" where
  "days_before_year y = (y - 1) * 365 + (y - 1) div 4 - (y - 1) div 100 + (y - 1) div 400"

definition days_before_month :: "int \<Rightarrow> int \<Rightarrow> int" where
  "days_before_month y m = sum_list (map (days_in_month y) [1 .. m - 1])"

text \<open>
  A \<^verbatim>\<open>datetime\<close> produced by this format is a midnight; it is represented by its
  proleptic Gregorian ordinal (\<^verbatim>\<open>date.toordinal\<close>), so that comparison of datetimes is
  comparison of integers and \<^verbatim>\<open>timedelta(days=1)\<close> adds one.
\<close>

definition ymd2ord :: "int \<Rightarrow> int \<Rightarrow> int \<Rightarrow> int" where
  "ymd2ord y m d = days_before_year y + days_before_month y m + d"

definition strptime_ymd :: "string \<Rightarrow> int option" where
  "strptime_ymd s =
     (case split_dash s of
        [ys, ms, ds] \<Rightarrow>
          (case parse_year ys of
             None \<Rightarrow> None
           | Some y \<Rightarrow>
               (case parse_month ms of
                  None \<Rightarrow> None
                | Some m \<Rightarrow>
                    (case parse_day ds of
                       None \<Rightarrow> None
                     | Some d \<Rightarrow>
                         if 1 \<le> y \<and> d \<le> days_in_month y m then Some (ymd2ord y m d)
                         else None)))
      | _ \<Rightarrow> None)"

text \<open>
  The loop that builds the nights:
  \<^verbatim>\<open>d = start_date; while d < end_date: nights.append(datetime(d.year, d.month, d.day)); d += timedelta(days=1)\<close>.
  On a midnight, \<^verbatim>\<open>datetime(d.year, d.month, d.day)\<close> is \<^verbatim>\<open>d\<close> itself.
\<close>

function nights_loop :: "int \<Rightarrow> int \<Rightarrow> int list \<Rightarrow> int list" where
  "nights_loop d end_date nights =
     (if d < end_date then nights_loop (d + 1) end_date (nights @ [d]) else nights)"
  by pat_completeness auto
termination
  by (relation "measure (\<lambda>(d, end_date, nights). nat (end_date - d))") auto

declare nights_loop.simps [simp del]

subsection \<open>Documents\<close>

text \<open>
  \<^verbatim>\<open>accommodation_id: Union[str, List[str]]\<close> of both request models.
\<close>

datatype acc_ref = Str string | Lst "string list"

fun is_list :: "acc_ref \<Rightarrow> bool" where
  "is_list (Lst xs) = True"
| "is_list (Str x) = False"

text \<open>
  \<^verbatim>\<open>if isinstance(acc_ids, str): acc_ids = [acc_ids]\<close>, in \<^verbatim>\<open>create_booking\<close> and in
  \<^verbatim>\<open>update_booking\<close>.
\<close>

fun normalize_accommodation_id :: "acc_ref \<Rightarrow> acc_ref" where
  "normalize_accommodation_id (Str x) = Lst [x]"
| "normalize_accommodation_id (Lst xs) = Lst xs"

text \<open>
  A stored \<^verbatim>\<open>check_in\<close> or \<^verbatim>\<open>check_out\<close> is a BSON string (what both handlers of this
  file write: the request's \<^verbatim>\<open>str\<close>) or a BSON date (a document of another writer).
\<close>

datatype bson = BStr string | BDate int

text \<open>
  \<^verbatim>\<open>bson.ObjectId(s)\<close> on a \<^verbatim>\<open>str\<close>: the length must be 24 and \<^verbatim>\<open>bytes.fromhex(s)\<close>
  must succeed; \<^verbatim>\<open>fromhex\<close> skips ASCII whitespace between two bytes. An identifier is
  the list of its bytes.
\<close>

type_synonym oid = "nat list"

definition is_space :: "char \<Rightarrow> bool" where
  "is_space c = ((of_char c :: nat) \<in> {9, 10, 11, 12, 13, 32})"

definition hex_val :: "char \<Rightarrow> nat option" where
  "hex_val c =
     (let n = (of_char c :: nat) in
      if 48 \<le> n \<and> n \<le> 57 then Some (n - 48)
      else if 97 \<le> n \<and> n \<le> 102 then Some (n - 87)
      else if 65 \<le> n \<and> n \<le> 70 then Some (n - 55)
      else None)"

fun fromhex :: "string \<Rightarrow> nat list option" where
  "fromhex [] = Some []"
| "fromhex [c] = (if is_space c then Some [] else None)"
| "fromhex (c # d # cs) =
     (if is_space c then fromhex (d # cs)
      else (case (hex_val c, hex_val d) of
              (Some h, Some l) \<Rightarrow> map_option ((#) (16 * h + l)) (fromhex cs)
            | _ \<Rightarrow> None))"

definition ObjectId :: "string \<Rightarrow> oid option" where
  "ObjectId s = (if length s = 24 then fromhex s else None)"

text \<open>
  A document of the \<^verbatim>\<open>bookings\<close> collection: the fields of \<^verbatim>\<open>BookingCreateRequest\<close>,
  \<^verbatim>\<open>_id\<close> (absent until \<^verbatim>\<open>insert_one\<close> assigns it), \<^verbatim>\<open>created_at\<close>, \<^verbatim>\<open>user_id\<close>,
  and the fields that \<^verbatim>\<open>create_booking\<close> reads with \<^verbatim>\<open>.get\<close> but that the request model
  does not declare (\<^verbatim>\<open>status\<close>, \<^verbatim>\<open>allow_extra_beds\<close>, \<^verbatim>\<open>extra_beds_qty\<close>). The price is a
  number that no handler computes with.
\<close>

record booking_doc =
  bk_id :: "oid option"
  bk_guest_name :: string
  bk_guest_email :: string
  bk_guest_phone :: string
  bk_address :: string
  bk_city :: string
  bk_postal_code :: string
  bk_country :: string
  bk_accommodation_id :: acc_ref
  bk_check_in :: bson
  bk_check_out :: bson
  bk_total_price :: int
  bk_payment_method :: "string option"
  bk_guests :: "int option"
  bk_adults :: "int option"
  bk_children :: "int option"
  bk_created_at :: int
  bk_user_id :: "string option"
  bk_status :: "string option"
  bk_allow_extra_beds :: pyval
  bk_extra_beds_qty :: pyval

record booking_create_request =
  rq_guest_name :: string
  rq_guest_email :: string
  rq_guest_phone :: string
  rq_address :: string
  rq_city :: string
  rq_postal_code :: string
  rq_country :: string
  rq_accommodation_id :: acc_ref
  rq_check_in :: string
  rq_check_out :: string
  rq_total_price :: int
  rq_payment_method :: "string option"
  rq_guests :: "int option"
  rq_adults :: "int option"
  rq_children :: "int option"

record booking_update_request =
  up_guest_name :: "string option"
  up_guest_email :: "string option"
  up_guest_phone :: "string option"
  up_address :: "string option"
  up_city :: "string option"
  up_postal_code :: "string option"
  up_country :: "string option"
  up_accommodation_id :: "acc_ref option"
  up_check_in :: "string option"
  up_check_out :: "string option"
  up_total_price :: "int option"
  up_payment_method :: "string option"
  up_guests :: "int option"
  up_adults :: "int option"
  up_children :: "int option"

text \<open>A document of the \<^verbatim>\<open>occupancies\<close> collection, as \<^verbatim>\<open>create_booking\<close> builds it.\<close>

record occupancy_doc =
  oc_accommodation_id :: acc_ref
  oc_date :: int
  oc_booking_id :: oid
  oc_created_at :: int

text \<open>
  A room or accommodation document, as the capacity check reads it. Its \<^verbatim>\<open>_id\<close> is a
  string or an \<^verbatim>\<open>ObjectId\<close>; the store accepts no array as an \<^verbatim>\<open>_id\<close>.
\<close>

datatype doc_id = IdStr string | IdOid oid

record cap_doc =
  cd_id :: doc_id
  cd_capacity :: pyval
  cd_sleeps :: pyval
  cd_extra_beds :: pyval
  cd_extra_bedding :: pyval

subsection \<open>The store and the environment\<close>

text \<open>
  The key of the lease lock,
  \<^verbatim>\<open>f"accom:{accommodation_id}:{start_date.isoformat()}:{end_date.isoformat()}"\<close>, is kept as
  its three components.
\<close>

datatype lock_key = LockKey acc_ref int int

text \<open>
  The calls made to the lock manager (\<^verbatim>\<open>resort_backend.lib.locks\<close>):
  \<^verbatim>\<open>acquire_lock(db, key, owner=, ttl_seconds=, timeout=)\<close> and
  \<^verbatim>\<open>release_lock(db, key, owner=)\<close>, the latter with the exception it raised, if any.
\<close>

datatype lock_event =
    Acquire lock_key string nat nat
  | Release lock_key string "exn option"

text \<open>The payload of \<^verbatim>\<open>publish_event\<close>: the booking's id and the guest's email.\<close>

datatype event = BookingsCreated "oid option" string

record store =
  bookings :: "booking_doc list"
  occupancies :: "occupancy_doc list"
  lock_log :: "lock_event list"
  events :: "event list"

text \<open>The store calls of the lock-guarded path and of the other handlers that can fail.\<close>

datatype call =
    Transaction
  | OverlapFind
  | BookingInsert
  | OccupancyInsert
  | RollbackDelete
  | CreatedFind
  | Publish
  | UpdateOne
  | RoomsFindOne
  | AccommodationsFindOne
  | ReleaseDelete

record user =
  us_id :: "string option"

text \<open>
  The environment of one request. \<^verbatim>\<open>fault c\<close> is the exception that the store call
  \<^verbatim>\<open>c\<close> raises, if it raises; \<^verbatim>\<open>occupancy_written\<close> is the number of documents that
  \<^verbatim>\<open>insert_many(..., ordered=True)\<close> has written when it raises (an ordered bulk insert
  writes the documents one after the other and stops at the first that fails).
  \<^verbatim>\<open>acquire_lock\<close> and \<^verbatim>\<open>release_lock\<close> are the lock manager; \<^verbatim>\<open>rooms_collection\<close> and
  \<^verbatim>\<open>accommodations_collection\<close> are the two capacity collections and \<^verbatim>\<open>rooms_find\<close> the rooms that
  the \<^verbatim>\<open>$or\<close> query of line 163 returns for an accommodation;
  \<^verbatim>\<open>get_current_user\<close> is the authentication helper (\<^verbatim>\<open>auth_import_ok\<close>: importing it
  succeeded). \<^verbatim>\<open>unique_occupancies\<close> tells whether the deployment has the unique index
  of the occupancy ledger, and \<^verbatim>\<open>encoded_id\<close> is what the driver sends to the store
  for an \<^verbatim>\<open>ObjectId\<close> that holds fewer than 12 bytes.
\<close>

record env =
  new_oid :: oid
  now :: int
  uuid :: string
  fault :: "call \<Rightarrow> exn option"
  occupancy_written :: nat
  acquire_lock :: "lock_key \<Rightarrow> string \<Rightarrow> nat \<Rightarrow> nat \<Rightarrow> string option"
  release_lock :: "lock_key \<Rightarrow> string \<Rightarrow> exn option"
  rooms_collection :: "cap_doc list"
  accommodations_collection :: "cap_doc list"
  rooms_find :: "cap_doc \<Rightarrow> exn + cap_doc list"
  unique_occupancies :: bool
  encoded_id :: "nat list \<Rightarrow> oid"
  auth_import_ok :: bool
  get_current_user :: "exn + user option"

text \<open>What \<^verbatim>\<open>get_db_or_503\<close> and the choice of path read from the application.\<close>

record client =
  cl_has_get_default_database :: bool
  cl_default_database :: bool
  cl_has_start_session :: bool

record app =
  state_db :: bool
  app_db :: bool
  state_db_client :: "client option"

definition get_db_or_503 :: "app \<Rightarrow> error + unit" where
  "get_db_or_503 a =
     (if state_db a then Inr ()
      else if app_db a then Inr ()
      else (case state_db_client a of
              None \<Rightarrow> Inl (HTTPException 503 DatabaseNotInitialized)
            | Some c \<Rightarrow>
                if cl_has_get_default_database c \<and> cl_default_database c then Inr ()
                else Inl (HTTPException 503 DatabaseNotInitialized)))"

subsection \<open>Store operations\<close>

text \<open>
  A query \<^verbatim>\<open>{"accommodation_id": q}\<close>: a list \<^verbatim>\<open>q\<close> selects the documents whose field is
  that list; a string selects the documents whose field is that string or a list that
  holds it.
\<close>

fun eq_query :: "acc_ref \<Rightarrow> acc_ref \<Rightarrow> bool" where
  "eq_query (Lst q) (Lst xs) = (xs = q)"
| "eq_query (Lst q) (Str x) = False"
| "eq_query (Str q) (Str x) = (x = q)"
| "eq_query (Str q) (Lst xs) = (q \<in> set xs)"

text \<open>
  \<^verbatim>\<open>{"$lt": t}\<close> and \<^verbatim>\<open>{"$gt": t}\<close> with a \<^verbatim>\<open>datetime\<close> \<^verbatim>\<open>t\<close>: comparison operators
  select only values of the BSON type of \<^verbatim>\<open>t\<close>, so a stored string is never selected.
\<close>

fun bson_lt :: "bson \<Rightarrow> int \<Rightarrow> bool" where
  "bson_lt (BDate d) t = (d < t)"
| "bson_lt (BStr x) t = False"

fun bson_gt :: "bson \<Rightarrow> int \<Rightarrow> bool" where
  "bson_gt (BDate d) t = (d > t)"
| "bson_gt (BStr x) t = False"

text \<open>
  The filter of the re-check inside the lock:
  \<^verbatim>\<open>{"accommodation_id": booking_dict["accommodation_id"], "status": {"$ne": "cancelled"},
  "check_in": {"$lt": check_out_dt}, "check_out": {"$gt": check_in_dt}}\<close>.
\<close>

definition overlap_filter :: "acc_ref \<Rightarrow> int \<Rightarrow> int \<Rightarrow> booking_doc \<Rightarrow> bool" where
  "overlap_filter acc check_in_dt check_out_dt b =
     (eq_query acc (bk_accommodation_id b)
      \<and> bk_status b \<noteq> Some ''cancelled''
      \<and> bson_lt (bk_check_in b) check_out_dt
      \<and> bson_gt (bk_check_out b) check_in_dt)"

definition by_id :: "oid \<Rightarrow> booking_doc \<Rightarrow> bool" where
  "by_id i b = (bk_id b = Some i)"

text \<open>
  \<^verbatim>\<open>insert_one\<close> gives the document an \<^verbatim>\<open>_id\<close> when it has none; the collection's index
  on \<^verbatim>\<open>_id\<close> refuses a second document with the same one.
\<close>

definition insert_one :: "env \<Rightarrow> booking_doc \<Rightarrow> booking_doc list \<Rightarrow> exn + (oid \<times> booking_doc list)" where
  "insert_one env d bs =
     (let i = (case bk_id d of None \<Rightarrow> new_oid env | Some j \<Rightarrow> j) in
      if list_ex (by_id i) bs then Inl DuplicateKeyError
      else Inr (i, bs @ [d\<lparr>bk_id := Some i\<rparr>]))"

fun delete_first :: "('a \<Rightarrow> bool) \<Rightarrow> 'a list \<Rightarrow> 'a list" where
  "delete_first P [] = []"
| "delete_first P (x # xs) = (if P x then xs else x # delete_first P xs)"

fun update_first :: "('a \<Rightarrow> bool) \<Rightarrow> ('a \<Rightarrow> 'a) \<Rightarrow> 'a list \<Rightarrow> 'a list" where
  "update_first P f [] = []"
| "update_first P f (x # xs) = (if P x then f x # xs else x # update_first P f xs)"

text \<open>The resources that an \<^verbatim>\<open>accommodation_id\<close> names.\<close>

fun resources :: "acc_ref \<Rightarrow> string list" where
  "resources (Str x) = [x]"
| "resources (Lst xs) = xs"

text \<open>
  A query \<^verbatim>\<open>{"_id": q}\<close> on a capacity collection: no document has an array as its
  \<^verbatim>\<open>_id\<close>, so a list selects nothing.
\<close>

fun id_query :: "acc_ref \<Rightarrow> doc_id \<Rightarrow> bool" where
  "id_query (Lst q) i = False"
| "id_query (Str q) (IdStr x) = (x = q)"
| "id_query (Str q) (IdOid x) = False"

definition find_one_by_id :: "acc_ref \<Rightarrow> cap_doc list \<Rightarrow> cap_doc option" where
  "find_one_by_id q docs = find (\<lambda>d. id_query q (cd_id d)) docs"

text \<open>
  An \<^verbatim>\<open>ObjectId\<close> in a filter. One of 12 bytes is sent as it is; for a shorter one
  (a 24-character string with whitespace) the bytes sent are the environment's.
\<close>

definition encode_id :: "env \<Rightarrow> nat list \<Rightarrow> oid" where
  "encode_id env b = (if length b = 12 then b else encoded_id env b)"

text \<open>
  Modelled from the spec: the unique index of the occupancy ledger, which the database
  setup (\<^verbatim>\<open>resort_backend.database\<close>) declares and which "enforces
  at-most-one-active-occupancy-per-(resource, night)". Two records are in conflict when
  they have the same night and a resource in common.
\<close>

definition occ_conflict :: "occupancy_doc \<Rightarrow> occupancy_doc \<Rightarrow> bool" where
  "occ_conflict d oc =
     (oc_date oc = oc_date d
      \<and> list_ex (\<lambda>r. r \<in> set (resources (oc_accommodation_id oc))) (resources (oc_accommodation_id d)))"

text \<open>
  An ordered bulk insert writes the documents one after the other and stops at the first
  that the index refuses, with \<^verbatim>\<open>BulkWriteError\<close>; what it wrote before stays (outside a
  transaction).
\<close>

fun insert_ordered ::
  "bool \<Rightarrow> occupancy_doc list \<Rightarrow> occupancy_doc list \<Rightarrow> exn option \<times> occupancy_doc list" where
  "insert_ordered unique [] occs = (None, occs)"
| "insert_ordered unique (d # ds) occs =
     (if unique \<and> list_ex (occ_conflict d) occs then (Some BulkWriteError, occs)
      else insert_ordered unique ds (occs @ [d]))"

text \<open>
  \<^verbatim>\<open>db["occupancies"].insert_many(occ_docs, ordered=True)\<close> outside a transaction: the
  exception it raised, if any, and the collection afterwards. It fails on the index, or
  for another reason after \<^verbatim>\<open>occupancy_written\<close> documents.
\<close>

definition insert_many_ordered ::
  "env \<Rightarrow> occupancy_doc list \<Rightarrow> occupancy_doc list \<Rightarrow> exn option \<times> occupancy_doc list" where
  "insert_many_ordered env docs occs =
     (case fault env OccupancyInsert of
        None \<Rightarrow> insert_ordered (unique_occupancies env) docs occs
      | Some e \<Rightarrow> (Some e, occs @ take (occupancy_written env) docs))"

subsection \<open>\<^verbatim>\<open>create_booking\<close>: validation and capacity\<close>

definition attach_user :: "env \<Rightarrow> string option" where
  "attach_user env =
     (if auth_import_ok env then
        (case get_current_user env of
           Inl e \<Rightarrow> None
         | Inr None \<Rightarrow> None
         | Inr (Some u) \<Rightarrow>
             (case us_id u of None \<Rightarrow> None | Some i \<Rightarrow> if i = [] then None else Some i))
      else None)"

text \<open>
  \<^verbatim>\<open>booking_dict\<close> after lines 105 to 125 of the source. \<^verbatim>\<open>booking.dict()\<close> has the
  declared fields only, so \<^verbatim>\<open>status\<close>, \<^verbatim>\<open>allow_extra_beds\<close> and \<^verbatim>\<open>extra_beds_qty\<close> are
  absent.
\<close>

definition booking_dict :: "env \<Rightarrow> booking_create_request \<Rightarrow> booking_doc" where
  "booking_dict env rq =
     \<lparr> bk_id = None,
       bk_guest_name = rq_guest_name rq,
       bk_guest_email = rq_guest_email rq,
       bk_guest_phone = rq_guest_phone rq,
       bk_address = rq_address rq,
       bk_city = rq_city rq,
       bk_postal_code = rq_postal_code rq,
       bk_country = rq_country rq,
       bk_accommodation_id = normalize_accommodation_id (rq_accommodation_id rq),
       bk_check_in = BStr (rq_check_in rq),
       bk_check_out = BStr (rq_check_out rq),
       bk_total_price = rq_total_price rq,
       bk_payment_method = rq_payment_method rq,
       bk_guests = rq_guests rq,
       bk_adults = rq_adults rq,
       bk_children = rq_children rq,
       bk_created_at = now env,
       bk_user_id = attach_user env,
       bk_status = None,
       bk_allow_extra_beds = PNone,
       bk_extra_beds_qty = PNone \<rparr>"

definition guests_req :: "booking_doc \<Rightarrow> int option" where
  "guests_req d =
     (case bk_guests d of
        Some g \<Rightarrow> Some g
      | None \<Rightarrow>
          (let adults = (case bk_adults d of None \<Rightarrow> 0 | Some a \<Rightarrow> a);
               children = (case bk_children d of None \<Rightarrow> 0 | Some c \<Rightarrow> c)
           in if adults + children > 0 then Some (adults + children) else None))"

definition cap_of :: "cap_doc \<Rightarrow> exn + int" where
  "cap_of r = py_int (py_or (cd_capacity r) (py_or (cd_sleeps r) (PInt 0)))"

definition extra_of :: "cap_doc \<Rightarrow> exn + int" where
  "extra_of r = py_int (py_or (cd_extra_beds r) (py_or (cd_extra_bedding r) (PInt 0)))"

text \<open>
  The room branch:
  \<^verbatim>\<open>eb = room.get("extra_beds") if room.get("extra_beds") is not None else room.get("extra_bedding")\<close>,
  \<^verbatim>\<open>extra_available = int(eb) if eb is not None else 0\<close>.
\<close>

definition room_extra :: "cap_doc \<Rightarrow> exn + int" where
  "room_extra r =
     (let eb = (if cd_extra_beds r \<noteq> PNone then cd_extra_beds r else cd_extra_bedding r)
      in if eb \<noteq> PNone then py_int eb else Inr 0)"

definition room_capacity :: "cap_doc \<Rightarrow> exn + (int \<times> int option)" where
  "room_capacity r =
     (case cap_of r of
        Inl e \<Rightarrow> Inl e
      | Inr c \<Rightarrow> (case room_extra r of Inl e \<Rightarrow> Inl e | Inr x \<Rightarrow> Inr (c, Some x)))"

text \<open>
  The accommodation branch gives \<^verbatim>\<open>total_cap\<close> and \<^verbatim>\<open>extra_available\<close>; the latter is
  \<^verbatim>\<open>None\<close> when the source leaves the variable unbound (the accommodation has no rooms).
  An exception inside the inner \<^verbatim>\<open>try\<close> sets \<^verbatim>\<open>extra_available = 0\<close> and keeps the
  \<^verbatim>\<open>total_cap\<close> assigned so far.
\<close>

definition acc_capacity :: "env \<Rightarrow> cap_doc \<Rightarrow> exn + (int \<times> int option)" where
  "acc_capacity env acc =
     (case cap_of acc of
        Inl e \<Rightarrow> Inl e
      | Inr c0 \<Rightarrow>
          (case rooms_find env acc of
             Inl e \<Rightarrow> Inr (c0, Some 0)
           | Inr rooms \<Rightarrow>
               if rooms = [] then Inr (c0, None)
               else (case py_sum cap_of rooms of
                       Inl e \<Rightarrow> Inr (c0, Some 0)
                     | Inr c1 \<Rightarrow>
                         (case py_sum extra_of rooms of
                            Inl e \<Rightarrow> Inr (c1, Some 0)
                          | Inr x \<Rightarrow> Inr (c1, Some x)))))"

text \<open>
  The two lookups, \<^verbatim>\<open>db["rooms"].find_one({"_id": accommodation_id})\<close> and, when no room
  is found, the one in \<^verbatim>\<open>db["accommodations"]\<close>. \<^verbatim>\<open>booking_dict["accommodation_id"]\<close> is a
  list by now, on which \<^verbatim>\<open>ObjectId\<close> raises \<^verbatim>\<open>TypeError\<close>, so the accommodation is looked
  up by the second \<^verbatim>\<open>find_one\<close>, in the \<^verbatim>\<open>except\<close> clause.
\<close>

definition lookup_resource :: "env \<Rightarrow> acc_ref \<Rightarrow> exn + (cap_doc option \<times> cap_doc option)" where
  "lookup_resource env a =
     (case fault env RoomsFindOne of
        Some e \<Rightarrow> Inl e
      | None \<Rightarrow>
          (case find_one_by_id a (rooms_collection env) of
             Some room \<Rightarrow> Inr (Some room, None)
           | None \<Rightarrow>
               (case fault env AccommodationsFindOne of
                  Some e \<Rightarrow> Inl e
                | None \<Rightarrow> Inr (None, find_one_by_id a (accommodations_collection env)))))"

text \<open>
  Lines 142 to 174: the capacity against which the guests are counted, or the exception
  that the outer \<^verbatim>\<open>except Exception\<close> swallows.
\<close>

definition resolve_capacity :: "env \<Rightarrow> booking_doc \<Rightarrow> exn + int" where
  "resolve_capacity env d =
     (case lookup_resource env (bk_accommodation_id d) of
        Inl e \<Rightarrow> Inl e
      | Inr (room, acc) \<Rightarrow>
          (case (case room of
                   Some r \<Rightarrow> room_capacity r
                 | None \<Rightarrow> (case acc of Some a \<Rightarrow> acc_capacity env a | None \<Rightarrow> Inr (0, Some 0))) of
             Inl e \<Rightarrow> Inl e
           | Inr (total_cap, extra_available) \<Rightarrow>
               if truthy (bk_allow_extra_beds d) then
                 (case py_int (py_or (bk_extra_beds_qty d) (PInt 0)) of
                    Inl e \<Rightarrow> Inl e
                  | Inr requested_extra \<Rightarrow>
                      (case extra_available of
                         None \<Rightarrow> Inl OtherException
                       | Some x \<Rightarrow> Inr (total_cap + min x requested_extra)))
               else Inr total_cap))"

definition capacity_validation :: "env \<Rightarrow> booking_doc \<Rightarrow> error + unit" where
  "capacity_validation env d =
     (case guests_req d of
        None \<Rightarrow> Inr ()
      | Some g \<Rightarrow>
          (case resolve_capacity env d of
             Inl e \<Rightarrow> Inr ()
           | Inr total_cap \<Rightarrow>
               if g > total_cap then Inl (HTTPException 400 (CapacityExceeded g total_cap))
               else Inr ()))"

text \<open>
  Lines 184 to 201: parsing, the order of the two dates and the nights.
\<close>

definition parse_range :: "booking_create_request \<Rightarrow> error + (int \<times> int \<times> int list)" where
  "parse_range rq =
     (case strptime_ymd (rq_check_in rq) of
        None \<Rightarrow> Inl (HTTPException 400 BadDateFormat)
      | Some check_in_dt \<Rightarrow>
          (case strptime_ymd (rq_check_out rq) of
             None \<Rightarrow> Inl (HTTPException 400 BadDateFormat)
           | Some check_out_dt \<Rightarrow>
               if check_in_dt \<ge> check_out_dt then Inl (HTTPException 400 CheckInBeforeCheckOut)
               else Inr (check_in_dt, check_out_dt, nights_loop check_in_dt check_out_dt [])))"

text \<open>
  Lines 104 to 201, which write nothing: the database handle, \<^verbatim>\<open>booking_dict\<close>, the
  comparison of the two request strings (line 127), the capacity check, the dates.
\<close>

definition prepare ::
  "app \<Rightarrow> env \<Rightarrow> booking_create_request \<Rightarrow> error + (booking_doc \<times> int \<times> int \<times> int list)" where
  "prepare a env rq =
     (case get_db_or_503 a of
        Inl e \<Rightarrow> Inl e
      | Inr u \<Rightarrow>
          if \<not> py_str_lt (rq_check_in rq) (rq_check_out rq)
          then Inl (HTTPException 400 CheckInBeforeCheckOut)
          else (case capacity_validation env (booking_dict env rq) of
                  Inl e \<Rightarrow> Inl e
                | Inr u' \<Rightarrow>
                    (case parse_range rq of
                       Inl e \<Rightarrow> Inl e
                     | Inr (check_in_dt, check_out_dt, nights) \<Rightarrow>
                         Inr (booking_dict env rq, check_in_dt, check_out_dt, nights))))"

subsection \<open>\<^verbatim>\<open>create_booking\<close>: the two paths\<close>

definition occ_docs_of :: "env \<Rightarrow> booking_doc \<Rightarrow> int list \<Rightarrow> oid \<Rightarrow> occupancy_doc list" where
  "occ_docs_of env d nights booking_id =
     map (\<lambda>nd. \<lparr> oc_accommodation_id = bk_accommodation_id d,
                 oc_date = nd,
                 oc_booking_id = booking_id,
                 oc_created_at = now env \<rparr>) nights"

definition supports_transactions :: "app \<Rightarrow> bool" where
  "supports_transactions a =
     (case state_db_client a of None \<Rightarrow> False | Some c \<Rightarrow> cl_has_start_session c)"

text \<open>
  Lines 211 to 226. An exception anywhere in the block leaves the \<^verbatim>\<open>async with\<close> of the
  transaction, which aborts it: nothing of it is stored. \<^verbatim>\<open>fault env Transaction\<close> is an
  exception of the session, of the transaction or of a call of the block other than the
  two refusals of an index: \<^verbatim>\<open>insert_one\<close> on a taken \<^verbatim>\<open>_id\<close> and \<^verbatim>\<open>insert_many\<close> on a
  taken night.
\<close>

definition transactional_path ::
  "env \<Rightarrow> booking_doc \<Rightarrow> int list \<Rightarrow> store \<Rightarrow> (exn + booking_doc option) \<times> store" where
  "transactional_path env d nights s =
     (case fault env Transaction of
        Some e \<Rightarrow> (Inl e, s)
      | None \<Rightarrow>
          (case insert_one env d (bookings s) of
             Inl e \<Rightarrow> (Inl e, s)
           | Inr (booking_id, bs) \<Rightarrow>
               (case insert_ordered (unique_occupancies env)
                       (occ_docs_of env d nights booking_id) (occupancies s) of
                  (Some e, occs) \<Rightarrow> (Inl e, s)
                | (None, occs) \<Rightarrow>
                    (Inr (find (by_id booking_id) bs), s\<lparr>bookings := bs, occupancies := occs\<rparr>))))"

text \<open>Lines 252 to 277: the body of the \<^verbatim>\<open>try\<close> that runs while the lock is held.\<close>

definition critical_section ::
  "env \<Rightarrow> booking_doc \<Rightarrow> int \<Rightarrow> int \<Rightarrow> int list \<Rightarrow> store \<Rightarrow> (error + booking_doc option) \<times> store" where
  "critical_section env d check_in_dt check_out_dt nights s =
     (case fault env OverlapFind of
        Some e \<Rightarrow> (Inl (Unhandled e), s)
      | None \<Rightarrow>
     (case find (overlap_filter (bk_accommodation_id d) check_in_dt check_out_dt) (bookings s) of
        Some overlap \<Rightarrow> (Inl (HTTPException 409 AlreadyBooked), s)
      | None \<Rightarrow>
     (case fault env BookingInsert of
        Some e \<Rightarrow> (Inl (Unhandled e), s)
      | None \<Rightarrow>
     (case insert_one env d (bookings s) of
        Inl e \<Rightarrow> (Inl (Unhandled e), s)
      | Inr (booking_id, bs) \<Rightarrow>
          (let occ_docs = occ_docs_of env d nights booking_id;
               (failed, occs) =
                  (if occ_docs \<noteq> [] then insert_many_ordered env occ_docs (occupancies s)
                   else (None, occupancies s));
               s2 = s\<lparr>bookings := bs, occupancies := occs\<rparr>
           in (case failed of
                 Some e \<Rightarrow>
                   (case fault env RollbackDelete of
                      Some e' \<Rightarrow> (Inl (Unhandled e'), s2)
                    | None \<Rightarrow>
                        (Inl (HTTPException 409 AlreadyBooked),
                         s2\<lparr>bookings := delete_first (by_id booking_id) bs\<rparr>))
               | None \<Rightarrow>
                   (case fault env CreatedFind of
                      Some e \<Rightarrow> (Inl (Unhandled e), s2)
                    | None \<Rightarrow> (Inr (find (by_id booking_id) bs), s2))))))))"

text \<open>
  Lines 242 to 282: \<^verbatim>\<open>acquire_lock\<close> with \<^verbatim>\<open>ttl_seconds=30\<close> and \<^verbatim>\<open>timeout=5.0\<close>,
  \<^verbatim>\<open>if not lock_owner\<close>, and the \<^verbatim>\<open>try ... finally\<close> whose \<^verbatim>\<open>finally\<close> calls
  \<^verbatim>\<open>release_lock\<close> inside \<^verbatim>\<open>try ... except Exception: pass\<close>.
\<close>

definition lock_key_of :: "booking_doc \<Rightarrow> int \<Rightarrow> int \<Rightarrow> lock_key" where
  "lock_key_of d start_date end_date = LockKey (bk_accommodation_id d) start_date end_date"

definition lock_guarded_path ::
  "env \<Rightarrow> booking_doc \<Rightarrow> int \<Rightarrow> int \<Rightarrow> int list \<Rightarrow> store \<Rightarrow> (error + booking_doc option) \<times> store" where
  "lock_guarded_path env d check_in_dt check_out_dt nights s =
     (let lock_key = lock_key_of d check_in_dt check_out_dt;
          s0 = s\<lparr>lock_log := lock_log s @ [Acquire lock_key (uuid env) 30 5]\<rparr>
      in (case acquire_lock env lock_key (uuid env) 30 5 of
            None \<Rightarrow> (Inl (HTTPException 409 Busy), s0)
          | Some lock_owner \<Rightarrow>
              if lock_owner = [] then (Inl (HTTPException 409 Busy), s0)
              else (case critical_section env d check_in_dt check_out_dt nights s0 of
                      (r, s1) \<Rightarrow>
                        (r, s1\<lparr>lock_log := lock_log s1 @
                               [Release lock_key lock_owner (release_lock env lock_key lock_owner)]\<rparr>))))"

text \<open>
  Lines 283 to 289: the response and the notification, whose failure is swallowed.
\<close>

definition respond :: "env \<Rightarrow> booking_doc option \<Rightarrow> store \<Rightarrow> (error + booking_doc option) \<times> store" where
  "respond env created s =
     (Inr created,
      (case created of
         None \<Rightarrow> s
       | Some c \<Rightarrow>
           (case fault env Publish of
              Some e \<Rightarrow> s
            | None \<Rightarrow> s\<lparr>events := events s @ [BookingsCreated (bk_id c) (bk_guest_email c)]\<rparr>)))"

text \<open>Lines 240 to 289: what follows the transactional attempt.\<close>

definition after_transaction ::
  "env \<Rightarrow> booking_doc \<Rightarrow> int \<Rightarrow> int \<Rightarrow> int list \<Rightarrow> booking_doc option \<Rightarrow> store
     \<Rightarrow> (error + booking_doc option) \<times> store" where
  "after_transaction env d check_in_dt check_out_dt nights created s =
     (case created of
        Some c \<Rightarrow> respond env (Some c) s
      | None \<Rightarrow>
          (case lock_guarded_path env d check_in_dt check_out_dt nights s of
             (Inl e, s') \<Rightarrow> (Inl e, s')
           | (Inr created', s') \<Rightarrow> respond env created' s'))"

text \<open>
  Lines 203 to 289. The clauses after the transactional block, in their order:
  \<^verbatim>\<open>except DuplicateKeyError\<close> raises 409, \<^verbatim>\<open>except PyMongoError\<close> and
  \<^verbatim>\<open>except Exception\<close> set \<^verbatim>\<open>created = None\<close>.
\<close>

definition reserve ::
  "app \<Rightarrow> env \<Rightarrow> booking_doc \<Rightarrow> int \<Rightarrow> int \<Rightarrow> int list \<Rightarrow> store
     \<Rightarrow> (error + booking_doc option) \<times> store" where
  "reserve a env d check_in_dt check_out_dt nights s =
     (if supports_transactions a then
        (case transactional_path env d nights s of
           (Inl e, s') \<Rightarrow>
             if e = DuplicateKeyError then (Inl (HTTPException 409 AlreadyBooked), s')
             else after_transaction env d check_in_dt check_out_dt nights None s'
         | (Inr created, s') \<Rightarrow>
             after_transaction env d check_in_dt check_out_dt nights created s')
      else after_transaction env d check_in_dt check_out_dt nights None s)"

definition create_booking ::
  "app \<Rightarrow> env \<Rightarrow> booking_create_request \<Rightarrow> store \<Rightarrow> (error + booking_doc option) \<times> store" where
  "create_booking a env rq s =
     (case prepare a env rq of
        Inl e \<Rightarrow> (Inl e, s)
      | Inr (d, check_in_dt, check_out_dt, nights) \<Rightarrow>
          reserve a env d check_in_dt check_out_dt nights s)"

subsection \<open>\<^verbatim>\<open>update_booking\<close> and \<^verbatim>\<open>release_occupancies_endpoint\<close>\<close>

text \<open>
  \<^verbatim>\<open>{"$set": update_data}\<close>, where \<^verbatim>\<open>update_data\<close> holds the fields of the request that
  are not \<^verbatim>\<open>None\<close>, \<^verbatim>\<open>accommodation_id\<close> normalised.
\<close>

definition set_or :: "'a option \<Rightarrow> 'a \<Rightarrow> 'a" where
  "set_or v old = (case v of None \<Rightarrow> old | Some x \<Rightarrow> x)"

definition apply_set :: "booking_update_request \<Rightarrow> booking_doc \<Rightarrow> booking_doc" where
  "apply_set u b =
     b\<lparr> bk_guest_name := set_or (up_guest_name u) (bk_guest_name b),
        bk_guest_email := set_or (up_guest_email u) (bk_guest_email b),
        bk_guest_phone := set_or (up_guest_phone u) (bk_guest_phone b),
        bk_address := set_or (up_address u) (bk_address b),
        bk_city := set_or (up_city u) (bk_city b),
        bk_postal_code := set_or (up_postal_code u) (bk_postal_code b),
        bk_country := set_or (up_country u) (bk_country b),
        bk_accommodation_id :=
          set_or (map_option normalize_accommodation_id (up_accommodation_id u)) (bk_accommodation_id b),
        bk_check_in := set_or (map_option BStr (up_check_in u)) (bk_check_in b),
        bk_check_out := set_or (map_option BStr (up_check_out u)) (bk_check_out b),
        bk_total_price := set_or (up_total_price u) (bk_total_price b),
        bk_payment_method := set_or (map_option Some (up_payment_method u)) (bk_payment_method b),
        bk_guests := set_or (map_option Some (up_guests u)) (bk_guests b),
        bk_adults := set_or (map_option Some (up_adults u)) (bk_adults b),
        bk_children := set_or (map_option Some (up_children u)) (bk_children b) \<rparr>"

text \<open>
  Lines 295 to 313. The \<^verbatim>\<open>try\<close> covers \<^verbatim>\<open>ObjectId(booking_id)\<close> and \<^verbatim>\<open>update_one\<close>: any
  exception of either is a 400.
\<close>

definition update_booking ::
  "app \<Rightarrow> env \<Rightarrow> string \<Rightarrow> booking_update_request \<Rightarrow> store \<Rightarrow> (error + booking_doc option) \<times> store" where
  "update_booking a env booking_id u s =
     (case get_db_or_503 a of
        Inl e \<Rightarrow> (Inl e, s)
      | Inr u' \<Rightarrow>
          (case ObjectId booking_id of
             None \<Rightarrow> (Inl (HTTPException 400 InvalidBookingId), s)
           | Some b \<Rightarrow>
               (case fault env UpdateOne of
                  Some e \<Rightarrow> (Inl (HTTPException 400 InvalidBookingId), s)
                | None \<Rightarrow>
                    (let i = encode_id env b in
                     if \<not> list_ex (by_id i) (bookings s)
                     then (Inl (HTTPException 404 BookingNotFound), s)
                     else (let bs = update_first (by_id i) (apply_set u) (bookings s)
                           in (Inr (find (by_id i) bs), s\<lparr>bookings := bs\<rparr>))))))"


subsection \<open>Notions used by the statements\<close>

text \<open>Both dates of a request parse and the check-in is strictly before the check-out.\<close>

definition dates_ok :: "booking_create_request \<Rightarrow> bool" where
  "dates_ok rq =
     (case strptime_ymd (rq_check_in rq) of
        None \<Rightarrow> False
      | Some check_in_dt \<Rightarrow>
          (case strptime_ymd (rq_check_out rq) of
             None \<Rightarrow> False
           | Some check_out_dt \<Rightarrow> check_in_dt < check_out_dt))"

text \<open>Every stored booking has a list as its \<^verbatim>\<open>accommodation_id\<close>.\<close>

definition all_lists :: "store \<Rightarrow> bool" where
  "all_lists s = list_all (\<lambda>b. is_list (bk_accommodation_id b)) (bookings s)"


text \<open>
  The occupancy records that carry exactly the resource \<open>r\<close> and the night \<open>nd\<close>: the
  record of the specification's data model (resource identifier, calendar night, owning
  booking).
\<close>

definition records_of :: "string \<Rightarrow> int \<Rightarrow> occupancy_doc list \<Rightarrow> occupancy_doc list" where
  "records_of r nd occs =
     filter (\<lambda>oc. resources (oc_accommodation_id oc) = [r] \<and> oc_date oc = nd) occs"


text \<open>
  Line 240 is reached with \<^verbatim>\<open>created\<close> unset or \<^verbatim>\<open>None\<close>: the request goes on to the
  lock-guarded path.
\<close>

definition lock_path_taken :: "app \<Rightarrow> env \<Rightarrow> booking_doc \<Rightarrow> int list \<Rightarrow> store \<Rightarrow> bool" where
  "lock_path_taken a env d nights s =
     (if supports_transactions a then
        (case fst (transactional_path env d nights s) of
           Inl e \<Rightarrow> e \<noteq> DuplicateKeyError
         | Inr created \<Rightarrow> created = None)
      else True)"

text \<open>\<^verbatim>\<open>if not lock_owner\<close>: the lock manager returned nothing, or an empty token.\<close>

definition not_acquired :: "string option \<Rightarrow> bool" where
  "not_acquired lock_owner = (case lock_owner of None \<Rightarrow> True | Some ow \<Rightarrow> ow = [])"

text \<open>A store without its log of lock-manager calls.\<close>

definition unlogged :: "store \<Rightarrow> store" where
  "unlogged s = s\<lparr>lock_log := []\<rparr>"

subsection \<open>Example data\<close>

definition app_lock :: app where
  "app_lock = \<lparr> state_db = True, app_db = False, state_db_client = None \<rparr>"

definition app_txn :: app where
  "app_txn =
     \<lparr> state_db = True, app_db = False,
       state_db_client = Some \<lparr> cl_has_get_default_database = True,
                                 cl_default_database = True,
                                 cl_has_start_session = True \<rparr> \<rparr>"

definition oid_1 :: oid where
  "oid_1 = [0, 0, 0, 0, 0, 0, 0, 0, 0, 0, 0, 1]"

definition oid_2 :: oid where
  "oid_2 = [0, 0, 0, 0, 0, 0, 0, 0, 0, 0, 0, 2]"

text \<open>
  An environment in which nothing fails: the lock is granted to the requested owner, the
  capacity collections are empty, the occupancies have no unique index, nobody is signed
  in.
\<close>

definition env0 :: env where
  "env0 =
     \<lparr> new_oid = oid_1, now = 0, uuid = ''owner-a'',
       fault = (\<lambda>c. None), occupancy_written = 0,
       acquire_lock = (\<lambda>k ow ttl tmo. Some ow),
       release_lock = (\<lambda>k ow. None),
       rooms_collection = [], accommodations_collection = [],
       rooms_find = (\<lambda>acc. Inr []),
       unique_occupancies = False,
       encoded_id = (\<lambda>b. b @ replicate (12 - length b) 0),
       auth_import_ok = False,
       get_current_user = Inr None \<rparr>"

definition fault_at :: "call \<Rightarrow> exn \<Rightarrow> call \<Rightarrow> exn option" where
  "fault_at c e c' = (if c' = c then Some e else None)"

text \<open>Resource R, nights of 1 and 2 March 2024, no guest count.\<close>

definition rq_march :: booking_create_request where
  "rq_march =
     \<lparr> rq_guest_name = ''Ann'', rq_guest_email = ''ann@example.org'', rq_guest_phone = ''1'',
       rq_address = ''a'', rq_city = ''c'', rq_postal_code = ''p'', rq_country = ''x'',
       rq_accommodation_id = Str ''R'',
       rq_check_in = ''2024-03-01'', rq_check_out = ''2024-03-03'',
       rq_total_price = 100, rq_payment_method = None,
       rq_guests = None, rq_adults = None, rq_children = None \<rparr>"

definition store0 :: store where
  "store0 = \<lparr> bookings = [], occupancies = [], lock_log = [], events = [] \<rparr>"

definition room_of_4 :: cap_doc where
  "room_of_4 =
     \<lparr> cd_id = IdStr ''R'', cd_capacity = PInt 4, cd_sleeps = PNone,
       cd_extra_beds = PNone, cd_extra_bedding = PNone \<rparr>"

definition rq_bad_date :: booking_create_request where
  "rq_bad_date = rq_march\<lparr>rq_check_out := ''2024-03-xx''\<rparr>"

definition env_busy :: env where
  "env_busy = env0\<lparr>acquire_lock := (\<lambda>k ow ttl tmo. None)\<rparr>"

definition env_insert_fails :: env where
  "env_insert_fails =
     env0\<lparr>fault := fault_at OccupancyInsert PyMongoError, occupancy_written := 1\<rparr>"

definition env_release_fails :: env where
  "env_release_fails = env_insert_fails\<lparr>release_lock := (\<lambda>k ow. Some PyMongoError)\<rparr>"

definition key_march :: lock_key where
  "key_march = LockKey (Lst [''R'']) 738946 738948"

text \<open>
  The store after \<^verbatim>\<open>create_booking\<close> has served \<open>rq_march\<close>, and a second request for
  the same resource and the nights of 2 and 3 March.
\<close>

definition store_booked :: store where
  "store_booked = snd (create_booking app_lock env0 rq_march store0)"

definition rq_overlap :: booking_create_request where
  "rq_overlap = rq_march\<lparr>rq_check_in := ''2024-03-02'', rq_check_out := ''2024-03-04''\<rparr>"

definition env_second :: env where
  "env_second = env0\<lparr>new_oid := oid_2, uuid := ''owner-b''\<rparr>"

definition booking_march :: booking_doc where
  "booking_march = (booking_dict env0 rq_march)\<lparr>bk_id := Some oid_1\<rparr>"

text \<open>
  Six guests; a rooms collection that holds the room R of capacity 4; a rooms collection
  that cannot be reached.
\<close>

definition rq_six :: booking_create_request where
  "rq_six = rq_march\<lparr>rq_guests := Some 6\<rparr>"

definition env_room4 :: env where
  "env_room4 = env0\<lparr>rooms_collection := [room_of_4]\<rparr>"

definition env_unreachable :: env where
  "env_unreachable = env0\<lparr>fault := fault_at RoomsFindOne PyMongoError\<rparr>"

text \<open>A booking of the two resources R and S.\<close>

definition rq_two :: booking_create_request where
  "rq_two = rq_march\<lparr>rq_accommodation_id := Lst [''R'', ''S'']\<rparr>"

text \<open>
  A deployment with the unique index, and a store in which another booking holds R for
  the night of 2 March.
\<close>

definition env_indexed :: env where
  "env_indexed = env0\<lparr>unique_occupancies := True\<rparr>"

definition store_taken :: store where
  "store_taken =
     store0\<lparr>occupancies :=
       [\<lparr> oc_accommodation_id = Lst [''R''], oc_date = 738947,
          oc_booking_id = oid_2, oc_created_at = 0 \<rparr>]\<rparr>"

definition id_1 :: string where
  "id_1 = ''000000000000000000000001''"

text \<open>An update that names a single resource and changes nothing else.\<close>

definition up_resource :: booking_update_request where
  "up_resource =
     \<lparr> up_guest_name = None, up_guest_email = None, up_guest_phone = None, up_address = None,
       up_city = None, up_postal_code = None, up_country = None,
       up_accommodation_id = Some (Str ''S''),
       up_check_in = None, up_check_out = None, up_total_price = None, up_payment_method = None,
       up_guests = None, up_adults = None, up_children = None \<rparr>"

section \<open>Properties\<close>

subsection \<open>Shared lemmas\<close>

text \<open>What the stages of \<^verbatim>\<open>create_booking\<close> leave in the store.\<close>

lemma nights_loop_upto: "nights_loop d e acc = acc @ [d .. e - 1]"
proof (induction d e acc rule: nights_loop.induct)
  case (1 d end_date nights)
  show ?case
  proof (cases "d < end_date")
    case True
    then have "[d .. end_date - 1] = d # [d + 1 .. end_date - 1]"
      by (simp add: upto_rec1)
    with True 1 show ?thesis
      by (simp add: nights_loop.simps [of d])
  next
    case False
    then show ?thesis by (simp add: nights_loop.simps [of d])
  qed
qed

lemma prepare_Inr:
  assumes "prepare a env rq = Inr (d, ci, co, nights)"
  shows "get_db_or_503 a = Inr () \<and> d = booking_dict env rq
    \<and> strptime_ymd (rq_check_in rq) = Some ci \<and> strptime_ymd (rq_check_out rq) = Some co
    \<and> ci < co \<and> nights = nights_loop ci co [] \<and> py_str_lt (rq_check_in rq) (rq_check_out rq)"
  using assms
  by (auto simp: prepare_def parse_range_def split: sum.splits if_splits option.splits)

lemma insert_one_Inr:
  "insert_one env d bs = Inr (i, bs') \<Longrightarrow>
     i = (case bk_id d of None \<Rightarrow> new_oid env | Some j \<Rightarrow> j) \<and> bs' = bs @ [d\<lparr>bk_id := Some i\<rparr>] \<and> \<not> list_ex (by_id i) bs"
  by (auto simp: insert_one_def Let_def split: if_splits)

lemma insert_ordered_None:
  "insert_ordered unique docs occs = (None, occs') \<Longrightarrow> occs' = occs @ docs"
proof (induction docs arbitrary: occs)
  case Nil
  then show ?case by simp
next
  case (Cons d ds)
  from Cons.prems have "insert_ordered unique ds (occs @ [d]) = (None, occs')"
    by (auto split: if_splits)
  from Cons.IH [OF this] show ?case by simp
qed

lemma insert_many_ordered_None:
  "insert_many_ordered env docs occs = (None, occs') \<Longrightarrow> occs' = occs @ docs"
  by (auto simp: insert_many_ordered_def dest: insert_ordered_None split: option.splits)

lemma transactional_path_Inl: "transactional_path env d nights s = (Inl e, s') \<Longrightarrow> s' = s"
  by (auto simp: transactional_path_def split: option.splits sum.splits prod.splits)

lemma find_by_id_inserted:
  "\<not> list_ex (by_id i) bs \<Longrightarrow> find (by_id i) (bs @ [d\<lparr>bk_id := Some i\<rparr>]) = Some (d\<lparr>bk_id := Some i\<rparr>)"
  by (induction bs) (auto simp: by_id_def)

lemma transactional_path_Inr:
  "transactional_path env d nights s = (Inr c, s') \<Longrightarrow>
     \<exists>i. insert_one env d (bookings s) = Inr (i, bookings s') \<and> c = Some (d\<lparr>bk_id := Some i\<rparr>)
       \<and> occupancies s' = occupancies s @ occ_docs_of env d nights i
       \<and> lock_log s' = lock_log s \<and> events s' = events s"
  by (auto simp: transactional_path_def find_by_id_inserted dest!: insert_one_Inr insert_ordered_None
      split: option.splits sum.splits prod.splits)

lemma critical_section_Inr:
  "critical_section env d ci co nights s = (Inr c, s') \<Longrightarrow>
     \<exists>i. insert_one env d (bookings s) = Inr (i, bookings s') \<and> c = Some (d\<lparr>bk_id := Some i\<rparr>)
       \<and> occupancies s' = occupancies s @ occ_docs_of env d nights i"
  by (auto simp: critical_section_def Let_def find_by_id_inserted
      dest!: insert_one_Inr insert_many_ordered_None
      split: option.splits sum.splits if_splits prod.splits)

lemma critical_section_lock_log: "lock_log (snd (critical_section env d ci co nights s)) = lock_log s"
  by (auto simp: critical_section_def Let_def split: option.splits sum.splits if_splits prod.splits)

lemma critical_section_events: "events (snd (critical_section env d ci co nights s)) = events s"
  by (auto simp: critical_section_def Let_def split: option.splits sum.splits if_splits prod.splits)

lemma lock_guarded_path_Inr:
  "lock_guarded_path env d ci co nights s = (Inr c, s') \<Longrightarrow>
     \<exists>i. insert_one env d (bookings s) = Inr (i, bookings s') \<and> c = Some (d\<lparr>bk_id := Some i\<rparr>)
       \<and> occupancies s' = occupancies s @ occ_docs_of env d nights i"
  by (auto simp: lock_guarded_path_def Let_def dest!: critical_section_Inr split: option.splits if_splits prod.splits)

lemma respond_store: "bookings (snd (respond env c s)) = bookings s \<and> occupancies (snd (respond env c s)) = occupancies s
   \<and> lock_log (snd (respond env c s)) = lock_log s \<and> fst (respond env c s) = Inr c"
  by (auto simp: respond_def split: option.splits)

lemma after_transaction_None_Inr:
  assumes "after_transaction env d ci co nights None s = (Inr c, s')"
  shows "\<exists>i. insert_one env d (bookings s) = Inr (i, bookings s') \<and> c = Some (d\<lparr>bk_id := Some i\<rparr>)
       \<and> occupancies s' = occupancies s @ occ_docs_of env d nights i"
proof -
  obtain r s1 where l: "lock_guarded_path env d ci co nights s = (r, s1)"
    by (cases "lock_guarded_path env d ci co nights s")
  show ?thesis
  proof (cases r)
    case (Inl e)
    with l assms show ?thesis by (simp add: after_transaction_def)
  next
    case (Inr c1)
    with l assms have "respond env c1 s1 = (Inr c, s')" by (simp add: after_transaction_def)
    then have "c = c1" "bookings s' = bookings s1" "occupancies s' = occupancies s1"
      using respond_store [of env c1 s1] by auto
    with lock_guarded_path_Inr [of env d ci co nights s c1 s1] l Inr show ?thesis by auto
  qed
qed

lemma reserve_Inr:
  assumes "reserve a env d ci co nights s = (Inr c, s')"
  shows "\<exists>i. insert_one env d (bookings s) = Inr (i, bookings s') \<and> c = Some (d\<lparr>bk_id := Some i\<rparr>)
       \<and> occupancies s' = occupancies s @ occ_docs_of env d nights i"
proof (cases "supports_transactions a")
  case False
  with assms show ?thesis by (simp add: reserve_def after_transaction_None_Inr)
next
  case True
  obtain r s1 where t: "transactional_path env d nights s = (r, s1)"
    by (cases "transactional_path env d nights s")
  show ?thesis
  proof (cases r)
    case (Inl e)
    with t have "s1 = s" by (simp add: transactional_path_Inl)
    with Inl t True assms show ?thesis
      by (auto simp: reserve_def after_transaction_None_Inr split: if_splits)
  next
    case (Inr c1)
    with t obtain i where i: "insert_one env d (bookings s) = Inr (i, bookings s1)" "c1 = Some (d\<lparr>bk_id := Some i\<rparr>)"
      "occupancies s1 = occupancies s @ occ_docs_of env d nights i"
      using transactional_path_Inr [of env d nights s c1 s1] by auto
    from Inr t True assms i have "respond env c1 s1 = (Inr c, s')"
      by (simp add: reserve_def after_transaction_def)
    then have "c = c1" "bookings s' = bookings s1" "occupancies s' = occupancies s1"
      using respond_store [of env c1 s1] by auto
    with i show ?thesis by auto
  qed
qed

lemma create_booking_Inr:
  assumes "fst (create_booking a env rq s) = Inr c"
  shows "\<exists>ci co. prepare a env rq = Inr (booking_dict env rq, ci, co, nights_loop ci co [])
     \<and> strptime_ymd (rq_check_in rq) = Some ci \<and> strptime_ymd (rq_check_out rq) = Some co \<and> ci < co
     \<and> c = Some ((booking_dict env rq)\<lparr>bk_id := Some (new_oid env)\<rparr>)
     \<and> bookings (snd (create_booking a env rq s)) = bookings s @ [(booking_dict env rq)\<lparr>bk_id := Some (new_oid env)\<rparr>]
     \<and> occupancies (snd (create_booking a env rq s)) =
         occupancies s @ occ_docs_of env (booking_dict env rq) (nights_loop ci co []) (new_oid env)"
proof (cases "prepare a env rq")
  case (Inl e)
  with assms show ?thesis by (simp add: create_booking_def)
next
  case (Inr p)
  obtain d ci co nights where p: "p = (d, ci, co, nights)" by (cases p)
  from Inr p have pr: "d = booking_dict env rq" "strptime_ymd (rq_check_in rq) = Some ci"
      "strptime_ymd (rq_check_out rq) = Some co" "ci < co" "nights = nights_loop ci co []"
    using prepare_Inr [of a env rq d ci co nights] by auto
  obtain s' where r: "reserve a env d ci co nights s = (Inr c, s')"
    using assms Inr p by (cases "reserve a env d ci co nights s") (simp add: create_booking_def)
  have cb: "snd (create_booking a env rq s) = s'"
    using Inr p r by (simp add: create_booking_def)
  from reserve_Inr [OF r] obtain i where i: "insert_one env d (bookings s) = Inr (i, bookings s')"
      "c = Some (d\<lparr>bk_id := Some i\<rparr>)" "occupancies s' = occupancies s @ occ_docs_of env d nights i"
    by auto
  have "bk_id d = None" using pr(1) by (simp add: booking_dict_def)
  with insert_one_Inr [OF i(1)] have "i = new_oid env" "bookings s' = bookings s @ [d\<lparr>bk_id := Some i\<rparr>]"
    by auto
  with pr i cb Inr p show ?thesis by auto
qed

text \<open>Rejections before the reservation, and the way into the lock-guarded path.\<close>

lemma capacity_validation_Inl:
  "capacity_validation env d = Inl e \<Longrightarrow> \<exists>g c. e = HTTPException 400 (CapacityExceeded g c)"
  by (auto simp: capacity_validation_def split: option.splits sum.splits if_splits)

lemma parse_range_Inl:
  "parse_range rq = Inl e \<Longrightarrow> e = HTTPException 400 BadDateFormat \<or> e = HTTPException 400 CheckInBeforeCheckOut"
  by (auto simp: parse_range_def split: option.splits if_splits)

lemma parse_range_Inr_dates_ok: "parse_range rq = Inr p \<Longrightarrow> dates_ok rq"
  by (auto simp: parse_range_def dates_ok_def split: option.splits if_splits)

lemma prepare_bad_dates:
  assumes "get_db_or_503 a = Inr ()" and "\<not> dates_ok rq"
  shows "\<exists>d. prepare a env rq = Inl (HTTPException 400 d)"
proof (cases "py_str_lt (rq_check_in rq) (rq_check_out rq)")
  case False
  with assms(1) show ?thesis by (simp add: prepare_def)
next
  case True
  show ?thesis
  proof (cases "capacity_validation env (booking_dict env rq)")
    case (Inl e)
    with capacity_validation_Inl [OF Inl] True assms(1) show ?thesis
      by (auto simp: prepare_def)
  next
    case (Inr u)
    show ?thesis
    proof (cases "parse_range rq")
      case (Inl e)
      with parse_range_Inl [OF Inl] Inr True assms(1) show ?thesis
        by (auto simp: prepare_def)
    next
      case r: (Inr p)
      with parse_range_Inr_dates_ok [OF r] assms(2) show ?thesis by simp
    qed
  qed
qed

lemma prepare_after_capacity:
  assumes "get_db_or_503 a = Inr ()" and "py_str_lt (rq_check_in rq) (rq_check_out rq)"
    and "capacity_validation env (booking_dict env rq) = Inr ()"
  shows "create_booking a env rq s =
     (case parse_range rq of
        Inl e' \<Rightarrow> (Inl e', s)
      | Inr (ci, co, nights) \<Rightarrow> reserve a env (booking_dict env rq) ci co nights s)"
  using assms by (auto simp: create_booking_def prepare_def split: sum.splits)

lemma create_booking_prepared:
  "prepare a env rq = Inr (d, ci, co, nights) \<Longrightarrow>
     create_booking a env rq s = reserve a env d ci co nights s"
  by (simp add: create_booking_def)

lemma reserve_lock_path:
  assumes "lock_path_taken a env d nights s"
  shows "reserve a env d ci co nights s = after_transaction env d ci co nights None s"
proof (cases "supports_transactions a")
  case False
  then show ?thesis by (simp add: reserve_def)
next
  case True
  obtain r s1 where t: "transactional_path env d nights s = (r, s1)"
    by (cases "transactional_path env d nights s")
  show ?thesis
  proof (cases r)
    case (Inl e)
    with t have "s1 = s" by (simp add: transactional_path_Inl)
    with Inl t True assms show ?thesis
      by (simp add: reserve_def lock_path_taken_def)
  next
    case (Inr c)
    with t transactional_path_Inr [of env d nights s c s1] have "c \<noteq> None" by auto
    with Inr t True assms show ?thesis
      by (simp add: lock_path_taken_def)
  qed
qed

lemma reserve_duplicate:
  assumes "supports_transactions a" and "fst (transactional_path env d nights s) = Inl DuplicateKeyError"
  shows "reserve a env d ci co nights s = (Inl (HTTPException 409 AlreadyBooked), s)"
proof -
  obtain r s1 where t: "transactional_path env d nights s = (r, s1)"
    by (cases "transactional_path env d nights s")
  with assms(2) have "r = Inl DuplicateKeyError" by simp
  with t have "transactional_path env d nights s = (Inl DuplicateKeyError, s)"
    using transactional_path_Inl [of env d nights s DuplicateKeyError s1] by simp
  with assms(1) show ?thesis by (simp add: reserve_def)
qed

lemma lock_guarded_path_busy:
  assumes "not_acquired (acquire_lock env (lock_key_of d ci co) (uuid env) 30 5)"
  shows "lock_guarded_path env d ci co nights s =
     (Inl (HTTPException 409 Busy),
      s\<lparr>lock_log := lock_log s @ [Acquire (lock_key_of d ci co) (uuid env) 30 5]\<rparr>)"
  using assms by (auto simp: lock_guarded_path_def not_acquired_def Let_def split: option.splits)

lemma lock_guarded_path_granted:
  assumes "acquire_lock env (lock_key_of d ci co) (uuid env) 30 5 = Some ow" and "ow \<noteq> []"
  shows "lock_guarded_path env d ci co nights s =
     (fst (critical_section env d ci co nights
             (s\<lparr>lock_log := lock_log s @ [Acquire (lock_key_of d ci co) (uuid env) 30 5]\<rparr>)),
      (snd (critical_section env d ci co nights
             (s\<lparr>lock_log := lock_log s @ [Acquire (lock_key_of d ci co) (uuid env) 30 5]\<rparr>)))
        \<lparr>lock_log := lock_log s @
           [Acquire (lock_key_of d ci co) (uuid env) 30 5,
            Release (lock_key_of d ci co) ow (release_lock env (lock_key_of d ci co) ow)]\<rparr>)"
  using assms critical_section_lock_log [of env d ci co nights
      "s\<lparr>lock_log := lock_log s @ [Acquire (lock_key_of d ci co) (uuid env) 30 5]\<rparr>"]
  by (auto simp: lock_guarded_path_def Let_def split: prod.splits)

lemma after_transaction_None_lock_log:
  "lock_log (snd (after_transaction env d ci co nights None s)) =
     lock_log (snd (lock_guarded_path env d ci co nights s))"
  by (auto simp: after_transaction_def respond_def split: prod.splits sum.splits option.splits)

text \<open>No stage but the release itself reads the outcome of \<^verbatim>\<open>release_lock\<close>.\<close>

lemma booking_dict_release_lock:
  "booking_dict (env\<lparr>release_lock := f\<rparr>) rq = booking_dict env rq"
  by (simp add: booking_dict_def attach_user_def
      cong: sum.case_cong option.case_cong prod.case_cong if_cong)

lemma acc_capacity_release_lock:
  "acc_capacity (env\<lparr>release_lock := f\<rparr>) acc = acc_capacity env acc"
  by (simp add: acc_capacity_def
      cong: sum.case_cong option.case_cong prod.case_cong if_cong)

lemma resolve_capacity_release_lock:
  "resolve_capacity (env\<lparr>release_lock := f\<rparr>) d = resolve_capacity env d"
  by (simp add: resolve_capacity_def lookup_resource_def acc_capacity_release_lock
      cong: sum.case_cong option.case_cong prod.case_cong if_cong)

lemma capacity_validation_release_lock:
  "capacity_validation (env\<lparr>release_lock := f\<rparr>) d = capacity_validation env d"
  by (simp add: capacity_validation_def resolve_capacity_release_lock
      cong: sum.case_cong option.case_cong prod.case_cong if_cong)

lemma prepare_release_lock:
  "prepare a (env\<lparr>release_lock := f\<rparr>) rq = prepare a env rq"
  by (simp add: prepare_def capacity_validation_release_lock booking_dict_release_lock
      cong: sum.case_cong option.case_cong prod.case_cong if_cong)

lemma insert_one_release_lock:
  "insert_one (env\<lparr>release_lock := f\<rparr>) d bs = insert_one env d bs"
  by (simp add: insert_one_def
      cong: sum.case_cong option.case_cong prod.case_cong if_cong)

lemma occ_docs_of_release_lock:
  "occ_docs_of (env\<lparr>release_lock := f\<rparr>) d nights i = occ_docs_of env d nights i"
  by (simp add: occ_docs_of_def
      cong: sum.case_cong option.case_cong prod.case_cong if_cong)

lemma insert_many_ordered_release_lock:
  "insert_many_ordered (env\<lparr>release_lock := f\<rparr>) docs occs = insert_many_ordered env docs occs"
  by (simp add: insert_many_ordered_def
      cong: sum.case_cong option.case_cong prod.case_cong if_cong)

lemma transactional_path_release_lock:
  "transactional_path (env\<lparr>release_lock := f\<rparr>) d nights s = transactional_path env d nights s"
  by (simp add: transactional_path_def insert_one_release_lock occ_docs_of_release_lock
      cong: sum.case_cong option.case_cong prod.case_cong if_cong)

lemma critical_section_release_lock:
  "critical_section (env\<lparr>release_lock := f\<rparr>) d ci co nights s = critical_section env d ci co nights s"
  by (simp add: critical_section_def insert_one_release_lock occ_docs_of_release_lock
      insert_many_ordered_release_lock
      cong: sum.case_cong option.case_cong prod.case_cong if_cong)

lemma respond_release_lock:
  "respond (env\<lparr>release_lock := f\<rparr>) c s = respond env c s"
  by (simp add: respond_def cong: option.case_cong)

lemma respond_unlogged:
  "fst (respond env c s) = Inr c \<and> unlogged (snd (respond env c s)) = snd (respond env c (unlogged s))"
  by (auto simp: respond_def unlogged_def split: option.splits)

lemma lock_guarded_path_release_lock:
  "fst (lock_guarded_path (env\<lparr>release_lock := f\<rparr>) d ci co nights s) = fst (lock_guarded_path env d ci co nights s)
   \<and> unlogged (snd (lock_guarded_path (env\<lparr>release_lock := f\<rparr>) d ci co nights s)) =
       unlogged (snd (lock_guarded_path env d ci co nights s))"
  by (auto simp: lock_guarded_path_def Let_def critical_section_release_lock unlogged_def
      split: option.splits prod.splits)

lemma after_transaction_release_lock:
  "fst (after_transaction (env\<lparr>release_lock := f\<rparr>) d ci co nights c s) = fst (after_transaction env d ci co nights c s)
   \<and> unlogged (snd (after_transaction (env\<lparr>release_lock := f\<rparr>) d ci co nights c s)) =
       unlogged (snd (after_transaction env d ci co nights c s))"
proof (cases c)
  case (Some b)
  then show ?thesis by (simp add: after_transaction_def respond_release_lock)
next
  case None
  obtain r1 s1 where l1: "lock_guarded_path (env\<lparr>release_lock := f\<rparr>) d ci co nights s = (r1, s1)"
    by (cases "lock_guarded_path (env\<lparr>release_lock := f\<rparr>) d ci co nights s")
  obtain r2 s2 where l2: "lock_guarded_path env d ci co nights s = (r2, s2)"
    by (cases "lock_guarded_path env d ci co nights s")
  from lock_guarded_path_release_lock [where env = env and f = f and d = d and ci = ci and co = co and nights = nights and s = s] l1 l2
  have e: "r1 = r2" "unlogged s1 = unlogged s2" by auto
  show ?thesis
  proof (cases r2)
    case (Inl x)
    with None l1 l2 e show ?thesis by (simp add: after_transaction_def)
  next
    case (Inr created)
    with None l1 l2 e respond_unlogged [of env created s1] respond_unlogged [of env created s2]
    show ?thesis by (simp add: after_transaction_def respond_release_lock)
  qed
qed

lemma create_booking_release_lock:
  "fst (create_booking a (env\<lparr>release_lock := f\<rparr>) rq s) = fst (create_booking a env rq s)
   \<and> unlogged (snd (create_booking a (env\<lparr>release_lock := f\<rparr>) rq s)) =
       unlogged (snd (create_booking a env rq s))"
proof (cases "prepare a env rq")
  case (Inl e)
  then show ?thesis by (simp add: create_booking_def prepare_release_lock)
next
  case (Inr p)
  obtain d ci co nights where p: "p = (d, ci, co, nights)" by (cases p)
  show ?thesis
  proof (cases "supports_transactions a")
    case False
    with Inr p show ?thesis
      by (simp add: create_booking_def prepare_release_lock reserve_def after_transaction_release_lock)
  next
    case True
    obtain r s1 where t: "transactional_path env d nights s = (r, s1)"
      by (cases "transactional_path env d nights s")
    with Inr p True show ?thesis
      by (cases r) (simp_all add: create_booking_def prepare_release_lock reserve_def
          transactional_path_release_lock after_transaction_release_lock)
  qed
qed

text \<open>A property of every stored booking is kept when the written documents have it.\<close>

lemma set_delete_first: "set (delete_first P xs) \<subseteq> set xs"
  by (induction xs) auto

lemma set_update_first: "set (update_first P f xs) \<subseteq> set xs \<union> f ` set xs"
  by (induction xs) auto

lemma transactional_path_bookings:
  assumes "\<forall>b \<in> set (bookings s). Q b" and "\<forall>i. Q (d\<lparr>bk_id := Some i\<rparr>)"
  shows "\<forall>b \<in> set (bookings (snd (transactional_path env d nights s))). Q b"
  using assms
  by (auto simp: transactional_path_def dest!: insert_one_Inr
      split: option.splits sum.splits prod.splits)

lemma critical_section_bookings:
  assumes "\<forall>b \<in> set (bookings s). Q b" and "\<forall>i. Q (d\<lparr>bk_id := Some i\<rparr>)"
  shows "\<forall>b \<in> set (bookings (snd (critical_section env d ci co nights s))). Q b"
proof -
  have "\<forall>b \<in> set (delete_first P (bookings s @ [d\<lparr>bk_id := Some i\<rparr>])). Q b" for P i
    using assms set_delete_first [of P "bookings s @ [d\<lparr>bk_id := Some i\<rparr>]"] by auto
  with assms show ?thesis
    by (auto simp: critical_section_def insert_many_ordered_def Let_def dest!: insert_one_Inr
        split: option.splits sum.splits if_splits prod.splits)
qed

lemma lock_guarded_path_bookings:
  assumes "\<forall>b \<in> set (bookings s). Q b" and "\<forall>i. Q (d\<lparr>bk_id := Some i\<rparr>)"
  shows "\<forall>b \<in> set (bookings (snd (lock_guarded_path env d ci co nights s))). Q b"
proof -
  let ?s0 = "s\<lparr>lock_log := lock_log s @ [Acquire (lock_key_of d ci co) (uuid env) 30 5]\<rparr>"
  have "\<forall>b \<in> set (bookings ?s0). Q b" using assms(1) by simp
  from critical_section_bookings [OF this assms(2), of env ci co nights] assms(1)
  show ?thesis
    by (auto simp: lock_guarded_path_def Let_def split: option.splits prod.splits)
qed

lemma respond_bookings: "bookings (snd (respond env c s)) = bookings s"
  by (auto simp: respond_def split: option.splits)

lemma after_transaction_bookings:
  assumes "\<forall>b \<in> set (bookings s). Q b" and "\<forall>i. Q (d\<lparr>bk_id := Some i\<rparr>)"
  shows "\<forall>b \<in> set (bookings (snd (after_transaction env d ci co nights c s))). Q b"
proof (cases c)
  case (Some x)
  with assms(1) show ?thesis by (simp add: after_transaction_def respond_bookings)
next
  case None
  from lock_guarded_path_bookings [OF assms, of env ci co nights] None show ?thesis
    by (auto simp: after_transaction_def respond_bookings split: prod.splits sum.splits)
qed

lemma reserve_bookings:
  assumes "\<forall>b \<in> set (bookings s). Q b" and "\<forall>i. Q (d\<lparr>bk_id := Some i\<rparr>)"
  shows "\<forall>b \<in> set (bookings (snd (reserve a env d ci co nights s))). Q b"
proof (cases "supports_transactions a")
  case False
  with after_transaction_bookings [OF assms] show ?thesis by (simp add: reserve_def)
next
  case True
  obtain r s1 where t: "transactional_path env d nights s = (r, s1)"
    by (cases "transactional_path env d nights s")
  with transactional_path_bookings [OF assms, of env nights] have s1: "\<forall>b \<in> set (bookings s1). Q b"
    by simp
  from after_transaction_bookings [OF s1 assms(2)] s1 t True show ?thesis
    by (cases r) (auto simp: reserve_def)
qed

lemma create_booking_bookings:
  assumes "\<forall>b \<in> set (bookings s). Q b" and "\<forall>i. Q ((booking_dict env rq)\<lparr>bk_id := Some i\<rparr>)"
  shows "\<forall>b \<in> set (bookings (snd (create_booking a env rq s))). Q b"
proof (cases "prepare a env rq")
  case (Inl e)
  with assms(1) show ?thesis by (simp add: create_booking_def)
next
  case (Inr p)
  obtain d ci co nights where p: "p = (d, ci, co, nights)" by (cases p)
  with Inr have "d = booking_dict env rq"
    by (auto simp: prepare_def split: sum.splits if_splits)
  with reserve_bookings [OF assms(1), of d a env ci co nights] assms(2) Inr p show ?thesis
    by (simp add: create_booking_def)
qed

lemma update_booking_bookings:
  assumes "\<forall>b \<in> set (bookings s). Q b" and "\<forall>b \<in> set (bookings s). Q (apply_set u b)"
  shows "\<forall>b \<in> set (bookings (snd (update_booking a env booking_id u s))). Q b"
proof -
  have "\<forall>b \<in> set (update_first P (apply_set u) (bookings s)). Q b" for P
    using assms set_update_first [of P "apply_set u" "bookings s"] by auto
  with assms(1) show ?thesis
    by (auto simp: update_booking_def Let_def split: sum.splits option.splits)
qed

lemma is_list_normalize: "is_list (normalize_accommodation_id v)"
  by (cases v) auto

lemma apply_set_accommodation_id:
  "bk_accommodation_id (apply_set u b) =
     (case up_accommodation_id u of
        None \<Rightarrow> bk_accommodation_id b
      | Some v \<Rightarrow> normalize_accommodation_id v)"
  by (simp add: apply_set_def set_or_def split: option.splits)

subsection \<open>The overlap re-check inside the lock\<close>

lemma overlap_filter_dates:
  assumes "bk_check_in b = BDate ci" and "bk_check_out b = BDate co"
  shows "overlap_filter (Lst q) check_in_dt check_out_dt b =
     (bk_accommodation_id b = Lst q \<and> bk_status b \<noteq> Some ''cancelled''
      \<and> ci < check_out_dt \<and> co > check_in_dt)"
  using assms by (cases "bk_accommodation_id b") (auto simp: overlap_filter_def)

lemma overlap_filter_strings:
  "bk_check_in b = BStr x \<Longrightarrow> \<not> overlap_filter acc check_in_dt check_out_dt b"
  by (simp add: overlap_filter_def)

lemma critical_section_overlap:
  assumes "fault env OverlapFind = None"
    and "find (overlap_filter (bk_accommodation_id d) ci co) (bookings s) = Some b"
  shows "critical_section env d ci co nights s = (Inl (HTTPException 409 AlreadyBooked), s)"
  using assms by (simp add: critical_section_def)

text \<open>
  Claim C1 (the code departs from it). On the lock-guarded path the re-check treats a
  stored booking as conflicting exactly when the filter above selects it. For a booking
  whose two dates are BSON dates the filter is the claimed one: the same
  \<^verbatim>\<open>accommodation_id\<close>, not cancelled, \<open>check_in < new check_out\<close> and
  \<open>check_out > new check_in\<close>; and when a booking is selected the critical section ends with
  409 and the store as it was. But \<^verbatim>\<open>create_booking\<close> stores the two dates as the
  strings of the request, and those the filter never selects. Evaluated: in the store left
  by a reservation of R from 1 to 3 March 2024, the re-check for R from 2 to 4 March finds
  nothing, the second booking is stored, and the night of 2 March has two occupancy
  records for R. The same stored booking with dates in place of its strings is selected.
\<close>

theorem recheck_misses_stored_booking:
  "bookings store_booked = [booking_march]
   \<and> bk_accommodation_id booking_march = Lst [''R'']
   \<and> bk_check_in booking_march = BStr ''2024-03-01''
   \<and> bk_check_out booking_march = BStr ''2024-03-03''
   \<and> bk_status booking_march = None
   \<and> find (overlap_filter (Lst [''R'']) 738947 738949) (bookings store_booked) = None
   \<and> fst (create_booking app_lock env_second rq_overlap store_booked) =
       Inr (Some ((booking_dict env_second rq_overlap)\<lparr>bk_id := Some oid_2\<rparr>))
   \<and> map oc_date (occupancies (snd (create_booking app_lock env_second rq_overlap store_booked))) =
       [738946, 738947, 738947, 738948]
   \<and> map oc_accommodation_id (occupancies (snd (create_booking app_lock env_second rq_overlap store_booked))) =
       [Lst [''R''], Lst [''R''], Lst [''R''], Lst [''R'']]
   \<and> overlap_filter (Lst [''R'']) 738947 738949
        (booking_march\<lparr>bk_check_in := BDate 738946, bk_check_out := BDate 738948\<rparr>)"
  by code_simp

subsection \<open>Rollback when the occupancy insert fails\<close>

text \<open>
  Claim C2 (the code departs from it). On the lock-guarded path, \<^verbatim>\<open>insert_many\<close>
  raises after it has written the first of the two occupancy records of the request. The
  booking is deleted and the response is 409, but the record already written stays in the
  store, owned by a booking that no longer exists.
\<close>

theorem rollback_leaves_occupancy:
  "create_booking app_lock env_insert_fails rq_march store0 =
     (Inl (HTTPException 409 AlreadyBooked),
      \<lparr> bookings = [],
        occupancies = [\<lparr> oc_accommodation_id = Lst [''R''], oc_date = 738946,
                         oc_booking_id = oid_1, oc_created_at = 0 \<rparr>],
        lock_log = [Acquire key_march ''owner-a'' 30 5, Release key_march ''owner-a'' None],
        events = [] \<rparr>)"
  by code_simp

subsection \<open>The capacity check\<close>

text \<open>
  The lookups of the check are made with the normalised \<^verbatim>\<open>accommodation_id\<close>, a list,
  which selects no document of either collection: when the check computes a capacity for
  a request of \<^verbatim>\<open>create_booking\<close>, it is 0.
\<close>

lemma find_one_by_id_list: "find_one_by_id (Lst q) docs = None"
  by (induction docs) (simp_all add: find_one_by_id_def)

lemma resolve_capacity_of_request:
  assumes "resolve_capacity env (booking_dict env rq) = Inr cap"
  shows "cap = 0"
proof -
  obtain q where "bk_accommodation_id (booking_dict env rq) = Lst q"
    by (cases "rq_accommodation_id rq") (simp_all add: booking_dict_def)
  moreover have "\<not> truthy (bk_allow_extra_beds (booking_dict env rq))"
    by (simp add: booking_dict_def)
  ultimately show ?thesis
    using assms
    by (auto simp: resolve_capacity_def lookup_resource_def find_one_by_id_list split: option.splits)
qed

text \<open>
  Claim C3, amended. Take a request that reaches the capacity check (a database handle,
  and line 127 passed) with a guest count \<open>g\<close>. When the check computes a capacity \<open>cap\<close> and
  \<open>g > cap\<close>, the response is 400 with the capacity detail, which is the status of a
  validation error and not the 409 of a conflict, and the store is untouched. When a
  lookup of the check raises, the request goes on as if there were no capacity check: its
  outcome is that of the date checks and of the reservation paths.
\<close>

theorem capacity_exceeded_rejected:
  assumes "get_db_or_503 a = Inr ()"
    and "py_str_lt (rq_check_in rq) (rq_check_out rq)"
    and "guests_req (booking_dict env rq) = Some g"
  shows "(\<forall>cap. resolve_capacity env (booking_dict env rq) = Inr cap \<and> g > cap \<longrightarrow>
            create_booking a env rq s = (Inl (HTTPException 400 (CapacityExceeded g cap)), s)
            \<and> is_ValidationError (HTTPException 400 (CapacityExceeded g cap))
            \<and> \<not> is_ConflictError (HTTPException 400 (CapacityExceeded g cap)))
     \<and> (\<forall>e. resolve_capacity env (booking_dict env rq) = Inl e \<longrightarrow>
            create_booking a env rq s =
              (case parse_range rq of
                 Inl e' \<Rightarrow> (Inl e', s)
               | Inr (ci, co, nights) \<Rightarrow> reserve a env (booking_dict env rq) ci co nights s))"
proof (intro conjI allI impI)
  fix cap
  assume c: "resolve_capacity env (booking_dict env rq) = Inr cap \<and> g > cap"
  with assms(3) have "capacity_validation env (booking_dict env rq) =
      Inl (HTTPException 400 (CapacityExceeded g cap))"
    by (simp add: capacity_validation_def)
  with assms(1,2) show "create_booking a env rq s = (Inl (HTTPException 400 (CapacityExceeded g cap)), s)"
    by (simp add: create_booking_def prepare_def)
  show "is_ValidationError (HTTPException 400 (CapacityExceeded g cap))"
    by (simp add: is_ValidationError_def)
  show "\<not> is_ConflictError (HTTPException 400 (CapacityExceeded g cap))"
    by (simp add: is_ConflictError_def)
next
  fix e
  assume "resolve_capacity env (booking_dict env rq) = Inl e"
  with assms(3) have "capacity_validation env (booking_dict env rq) = Inr ()"
    by (simp add: capacity_validation_def)
  with assms(1,2) show "create_booking a env rq s =
              (case parse_range rq of
                 Inl e' \<Rightarrow> (Inl e', s)
               | Inr (ci, co, nights) \<Rightarrow> reserve a env (booking_dict env rq) ci co nights s)"
    by (rule prepare_after_capacity)
qed

text \<open>
  Six guests: with the room R of capacity 4 in the rooms collection, and with a rooms
  collection that cannot be reached.
\<close>

theorem capacity_exceeded_rejected_witness:
  "get_db_or_503 app_lock = Inr ()
   \<and> py_str_lt (rq_check_in rq_six) (rq_check_out rq_six)
   \<and> guests_req (booking_dict env_room4 rq_six) = Some 6
   \<and> resolve_capacity env_room4 (booking_dict env_room4 rq_six) = Inr 0
   \<and> create_booking app_lock env_room4 rq_six store0 = (Inl (HTTPException 400 (CapacityExceeded 6 0)), store0)
   \<and> guests_req (booking_dict env_unreachable rq_six) = Some 6
   \<and> resolve_capacity env_unreachable (booking_dict env_unreachable rq_six) = Inl PyMongoError
   \<and> create_booking app_lock env_unreachable rq_six store0 =
       reserve app_lock env_unreachable (booking_dict env_unreachable rq_six) 738946 738948 [738946, 738947] store0
   \<and> fst (create_booking app_lock env_unreachable rq_six store0) =
       Inr (Some ((booking_dict env_unreachable rq_six)\<lparr>bk_id := Some oid_1\<rparr>))"
proof -
  have h1: "get_db_or_503 app_lock = Inr ()" by code_simp
  have h2: "py_str_lt (rq_check_in rq_six) (rq_check_out rq_six)" by code_simp
  have g1: "guests_req (booking_dict env_room4 rq_six) = Some 6" by code_simp
  have g2: "guests_req (booking_dict env_unreachable rq_six) = Some 6" by code_simp
  have r1: "resolve_capacity env_room4 (booking_dict env_room4 rq_six) = Inr 0" by code_simp
  have r2: "resolve_capacity env_unreachable (booking_dict env_unreachable rq_six) = Inl PyMongoError"
    by code_simp
  have p: "parse_range rq_six = Inr (738946, 738948, [738946, 738947])" by code_simp
  from capacity_exceeded_rejected [OF h1 h2 g1, of store0] r1
  have c1: "create_booking app_lock env_room4 rq_six store0 =
      (Inl (HTTPException 400 (CapacityExceeded 6 0)), store0)"
    by simp
  from capacity_exceeded_rejected [OF h1 h2 g2, of store0] r2
  have "create_booking app_lock env_unreachable rq_six store0 =
      (case parse_range rq_six of
         Inl e' \<Rightarrow> (Inl e', store0)
       | Inr (ci, co, nights) \<Rightarrow>
           reserve app_lock env_unreachable (booking_dict env_unreachable rq_six) ci co nights store0)"
    by blast
  with p have c2: "create_booking app_lock env_unreachable rq_six store0 =
       reserve app_lock env_unreachable (booking_dict env_unreachable rq_six) 738946 738948
         [738946, 738947] store0"
    by simp
  have c3: "fst (create_booking app_lock env_unreachable rq_six store0) =
       Inr (Some ((booking_dict env_unreachable rq_six)\<lparr>bk_id := Some oid_1\<rparr>))"
    by code_simp
  from h1 h2 g1 r1 c1 g2 r2 c2 c3 show ?thesis by blast
qed

text \<open>
  The claim as stated fails: six guests asking for R, a room of capacity 4, are rejected
  with status 400, which is not a conflict error.
\<close>

theorem capacity_error_is_400:
  "find_one_by_id (Str ''R'') (rooms_collection env_room4) = Some room_of_4
   \<and> cd_capacity room_of_4 = PInt 4
   \<and> rq_accommodation_id rq_six = Str ''R''
   \<and> rq_guests rq_six = Some 6
   \<and> fst (create_booking app_lock env_room4 rq_six store0) = Inl (HTTPException 400 (CapacityExceeded 6 0))
   \<and> snd (create_booking app_lock env_room4 rq_six store0) = store0
   \<and> \<not> is_ConflictError (HTTPException 400 (CapacityExceeded 6 0))
   \<and> is_ValidationError (HTTPException 400 (CapacityExceeded 6 0))"
  by code_simp

subsection \<open>Nights and occupancy records\<close>

text \<open>
  Claim C4, amended. When \<^verbatim>\<open>create_booking\<close> returns a booking, both dates parsed; the
  list of nights built by the loop is increasing, without repetition, and holds exactly
  the dates \<open>nd\<close> with \<open>check_in \<le> nd < check_out\<close>; the occupancy records added to the store
  are exactly one per night of that list, in its order, each carrying the booking's
  normalised \<^verbatim>\<open>accommodation_id\<close> (the whole list of its resources) and the new booking's
  id.
\<close>

theorem occupancy_per_night:
  assumes "fst (create_booking a env rq s) = Inr c"
  shows "\<exists>ci co. strptime_ymd (rq_check_in rq) = Some ci
      \<and> strptime_ymd (rq_check_out rq) = Some co
      \<and> sorted (nights_loop ci co []) \<and> distinct (nights_loop ci co [])
      \<and> set (nights_loop ci co []) = {nd. ci \<le> nd \<and> nd < co}
      \<and> occupancies (snd (create_booking a env rq s)) =
          occupancies s @
          map (\<lambda>nd. \<lparr> oc_accommodation_id = normalize_accommodation_id (rq_accommodation_id rq),
                      oc_date = nd,
                      oc_booking_id = new_oid env,
                      oc_created_at = now env \<rparr>) (nights_loop ci co [])"
proof -
  from create_booking_Inr [OF assms] obtain ci co where
    p: "strptime_ymd (rq_check_in rq) = Some ci" "strptime_ymd (rq_check_out rq) = Some co"
    and o: "occupancies (snd (create_booking a env rq s)) =
         occupancies s @ occ_docs_of env (booking_dict env rq) (nights_loop ci co []) (new_oid env)"
    by blast
  have n: "nights_loop ci co [] = [ci .. co - 1]"
    by (simp add: nights_loop_upto)
  have "set (nights_loop ci co []) = {nd. ci \<le> nd \<and> nd < co}"
    by (auto simp: n)
  moreover have "sorted (nights_loop ci co [])" "distinct (nights_loop ci co [])"
    by (simp_all add: n)
  moreover have "occupancies (snd (create_booking a env rq s)) =
          occupancies s @
          map (\<lambda>nd. \<lparr> oc_accommodation_id = normalize_accommodation_id (rq_accommodation_id rq),
                      oc_date = nd, oc_booking_id = new_oid env, oc_created_at = now env \<rparr>)
            (nights_loop ci co [])"
    using o by (simp add: occ_docs_of_def booking_dict_def)
  ultimately show ?thesis using p by blast
qed

text \<open>
  The two resources R and S from 1 to 3 March 2024, on the transactional path: two
  records, one per night, each for both resources.
\<close>

theorem occupancy_per_night_witness:
  "fst (create_booking app_txn env0 rq_two store0) =
     Inr (Some ((booking_dict env0 rq_two)\<lparr>bk_id := Some oid_1\<rparr>))
   \<and> occupancies (snd (create_booking app_txn env0 rq_two store0)) =
       [\<lparr> oc_accommodation_id = Lst [''R'', ''S''], oc_date = 738946, oc_booking_id = oid_1, oc_created_at = 0 \<rparr>,
        \<lparr> oc_accommodation_id = Lst [''R'', ''S''], oc_date = 738947, oc_booking_id = oid_1, oc_created_at = 0 \<rparr>]"
proof -
  have h: "fst (create_booking app_txn env0 rq_two store0) =
     Inr (Some ((booking_dict env0 rq_two)\<lparr>bk_id := Some oid_1\<rparr>))"
    by code_simp
  have i: "strptime_ymd (rq_check_in rq_two) = Some 738946"
    by code_simp
  have o: "strptime_ymd (rq_check_out rq_two) = Some 738948"
    by code_simp
  from occupancy_per_night [OF h] i o
  have occ: "occupancies (snd (create_booking app_txn env0 rq_two store0)) =
          occupancies store0 @
          map (\<lambda>nd. \<lparr> oc_accommodation_id = normalize_accommodation_id (rq_accommodation_id rq_two),
                      oc_date = nd, oc_booking_id = new_oid env0, oc_created_at = now env0 \<rparr>)
            (nights_loop 738946 738948 [])"
    by auto
  have n: "nights_loop 738946 738948 [] = [738946, 738947]"
    by code_simp
  from occ n have "occupancies (snd (create_booking app_txn env0 rq_two store0)) =
       [\<lparr> oc_accommodation_id = Lst [''R'', ''S''], oc_date = 738946, oc_booking_id = oid_1, oc_created_at = 0 \<rparr>,
        \<lparr> oc_accommodation_id = Lst [''R'', ''S''], oc_date = 738947, oc_booking_id = oid_1, oc_created_at = 0 \<rparr>]"
    by (simp add: store0_def rq_two_def rq_march_def env0_def)
  with h show ?thesis by simp
qed

text \<open>
  The claim as stated fails: a booking of the two resources R and S for two nights gets
  two occupancy records and not four, and none of them is the record of R alone, or of S
  alone, for a night.
\<close>

theorem one_record_for_two_resources:
  "fst (create_booking app_lock env0 rq_two store0) =
     Inr (Some ((booking_dict env0 rq_two)\<lparr>bk_id := Some oid_1\<rparr>))
   \<and> resources (bk_accommodation_id (booking_dict env0 rq_two)) = [''R'', ''S'']
   \<and> nights_loop 738946 738948 [] = [738946, 738947]
   \<and> length (occupancies (snd (create_booking app_lock env0 rq_two store0))) = 2
   \<and> length (resources (bk_accommodation_id (booking_dict env0 rq_two)))
        * length (nights_loop 738946 738948 []) = 4
   \<and> records_of ''R'' 738946 (occupancies (snd (create_booking app_lock env0 rq_two store0))) = []
   \<and> records_of ''S'' 738946 (occupancies (snd (create_booking app_lock env0 rq_two store0))) = []
   \<and> map oc_accommodation_id (occupancies (snd (create_booking app_lock env0 rq_two store0))) =
       [Lst [''R'', ''S''], Lst [''R'', ''S'']]"
  by code_simp

subsection \<open>Errors of the transactional path\<close>

text \<open>
  What the clauses after the transactional block do with each class of exception.
\<close>

lemma reserve_fallback:
  assumes "supports_transactions a" and "fst (transactional_path env d nights s) = Inl e"
    and "e \<noteq> DuplicateKeyError"
  shows "reserve a env d ci co nights s = after_transaction env d ci co nights None s"
  using assms by (intro reserve_lock_path) (simp add: lock_path_taken_def)

text \<open>
  Claim C5 (the code departs from it). With the unique index on the occupancies and the
  night of 2 March already held for R, a request for R from 1 to 3 March takes the
  transactional path. The block writes the booking and the night of 1 March, and
  \<^verbatim>\<open>insert_many\<close> is refused on 2 March with \<^verbatim>\<open>BulkWriteError\<close>, which the clause for
  \<^verbatim>\<open>DuplicateKeyError\<close> does not catch. The transaction is aborted, and the request goes
  on to the lock-guarded path as for any other store error: it takes the lock, writes
  the booking and the night of 1 March again, is refused on 2 March, deletes the booking
  and answers 409. The record of 1 March stays in the store.
\<close>

theorem duplicate_night_falls_back:
  "supports_transactions app_txn
   \<and> fst (transactional_path env_indexed (booking_dict env_indexed rq_march) [738946, 738947] store_taken) =
       Inl BulkWriteError
   \<and> lock_path_taken app_txn env_indexed (booking_dict env_indexed rq_march) [738946, 738947] store_taken
   \<and> create_booking app_txn env_indexed rq_march store_taken =
       (Inl (HTTPException 409 AlreadyBooked),
        \<lparr> bookings = [],
          occupancies =
            [\<lparr> oc_accommodation_id = Lst [''R''], oc_date = 738947, oc_booking_id = oid_2, oc_created_at = 0 \<rparr>,
             \<lparr> oc_accommodation_id = Lst [''R''], oc_date = 738946, oc_booking_id = oid_1, oc_created_at = 0 \<rparr>],
          lock_log = [Acquire key_march ''owner-a'' 30 5, Release key_march ''owner-a'' None],
          events = [] \<rparr>)"
  by code_simp

subsection \<open>Rejection of malformed or unordered dates\<close>

text \<open>
  Claim C6. With a database handle, a request whose dates do not both parse as
  \<^verbatim>\<open>%Y-%m-%d\<close>, or whose check-in is not strictly before its check-out, is answered with
  status 400, and the store (bookings, occupancies, calls to the lock manager, events) is
  as before. The detail is that of the date checks, or that of the capacity check, which
  runs before the dates are parsed.
\<close>

theorem bad_dates_rejected:
  assumes "get_db_or_503 a = Inr ()" and "\<not> dates_ok rq"
  shows "\<exists>d. create_booking a env rq s = (Inl (HTTPException 400 d), s)
           \<and> is_ValidationError (HTTPException 400 d)"
proof -
  from prepare_bad_dates [OF assms] obtain d where "prepare a env rq = Inl (HTTPException 400 d)"
    by blast
  then have "create_booking a env rq s = (Inl (HTTPException 400 d), s)"
    by (simp add: create_booking_def)
  then show ?thesis by (auto simp: is_ValidationError_def)
qed

text \<open>
  A check-out that is not a date.
\<close>

theorem bad_dates_rejected_witness:
  "get_db_or_503 app_lock = Inr () \<and> \<not> dates_ok rq_bad_date
   \<and> create_booking app_lock env0 rq_bad_date store0 = (Inl (HTTPException 400 BadDateFormat), store0)
   \<and> is_ValidationError (HTTPException 400 BadDateFormat)"
proof -
  have h1: "get_db_or_503 app_lock = Inr ()" by code_simp
  have h2: "\<not> dates_ok rq_bad_date" by code_simp
  from bad_dates_rejected [OF h1 h2, of env0 store0] obtain d where
    d: "create_booking app_lock env0 rq_bad_date store0 = (Inl (HTTPException 400 d), store0)"
      "is_ValidationError (HTTPException 400 d)"
    by blast
  have "fst (create_booking app_lock env0 rq_bad_date store0) = Inl (HTTPException 400 BadDateFormat)"
    by code_simp
  with d have "d = BadDateFormat" by simp
  with d h1 h2 show ?thesis by simp
qed

subsection \<open>A lock that cannot be acquired\<close>

text \<open>
  Claim C7. On the lock-guarded path, the first call to the lock manager is
  \<^verbatim>\<open>acquire_lock\<close> for the key made of the normalised \<^verbatim>\<open>accommodation_id\<close> and the two
  dates, with the generated owner, \<^verbatim>\<open>ttl_seconds=30\<close> and \<^verbatim>\<open>timeout=5\<close>. When it returns
  no owner, the response is 409 (busy), no booking and no occupancy record is written, and
  no other call is made to the lock manager.
\<close>

theorem lock_busy_conflict:
  assumes "prepare a env rq = Inr (d, ci, co, nights)"
    and "lock_path_taken a env d nights s"
  shows "(\<exists>rest. lock_log (snd (create_booking a env rq s)) =
            lock_log s @
            Acquire (LockKey (normalize_accommodation_id (rq_accommodation_id rq)) ci co) (uuid env) 30 5 # rest)
     \<and> (not_acquired (acquire_lock env
            (LockKey (normalize_accommodation_id (rq_accommodation_id rq)) ci co) (uuid env) 30 5) \<longrightarrow>
          create_booking a env rq s =
            (Inl (HTTPException 409 Busy),
             s\<lparr>lock_log := lock_log s @
                [Acquire (LockKey (normalize_accommodation_id (rq_accommodation_id rq)) ci co) (uuid env) 30 5]\<rparr>)
          \<and> is_ConflictError (HTTPException 409 Busy))"
proof -
  have d: "d = booking_dict env rq"
    using prepare_Inr [OF assms(1)] by simp
  then have k: "lock_key_of d ci co = LockKey (normalize_accommodation_id (rq_accommodation_id rq)) ci co"
    by (simp add: lock_key_of_def booking_dict_def)
  have c: "create_booking a env rq s = after_transaction env d ci co nights None s"
    using assms by (simp add: create_booking_prepared reserve_lock_path)
  have "\<exists>rest. lock_log (snd (lock_guarded_path env d ci co nights s)) =
     lock_log s @ Acquire (lock_key_of d ci co) (uuid env) 30 5 # rest"
  proof (cases "not_acquired (acquire_lock env (lock_key_of d ci co) (uuid env) 30 5)")
    case True
    then show ?thesis by (simp add: lock_guarded_path_busy)
  next
    case False
    then obtain ow where "acquire_lock env (lock_key_of d ci co) (uuid env) 30 5 = Some ow" "ow \<noteq> []"
      by (auto simp: not_acquired_def split: option.splits)
    then show ?thesis by (simp add: lock_guarded_path_granted)
  qed
  then have first: "\<exists>rest. lock_log (snd (create_booking a env rq s)) =
            lock_log s @ Acquire (lock_key_of d ci co) (uuid env) 30 5 # rest"
    by (simp add: c after_transaction_None_lock_log)
  have second: "create_booking a env rq s =
            (Inl (HTTPException 409 Busy),
             s\<lparr>lock_log := lock_log s @ [Acquire (lock_key_of d ci co) (uuid env) 30 5]\<rparr>)"
    if "not_acquired (acquire_lock env (lock_key_of d ci co) (uuid env) 30 5)"
    using that by (simp add: c after_transaction_def lock_guarded_path_busy)
  from first second show ?thesis
    by (simp add: k is_ConflictError_def)
qed

text \<open>
  A lock manager that grants nothing.
\<close>

theorem lock_busy_conflict_witness:
  "prepare app_lock env_busy rq_march = Inr (booking_dict env_busy rq_march, 738946, 738948, [738946, 738947])
   \<and> lock_path_taken app_lock env_busy (booking_dict env_busy rq_march) [738946, 738947] store0
   \<and> not_acquired (acquire_lock env_busy key_march (uuid env_busy) 30 5)
   \<and> create_booking app_lock env_busy rq_march store0 =
       (Inl (HTTPException 409 Busy),
        \<lparr> bookings = [], occupancies = [], lock_log = [Acquire key_march ''owner-a'' 30 5], events = [] \<rparr>)"
proof -
  have h1: "prepare app_lock env_busy rq_march =
      Inr (booking_dict env_busy rq_march, 738946, 738948, [738946, 738947])"
    by code_simp
  have h2: "lock_path_taken app_lock env_busy (booking_dict env_busy rq_march) [738946, 738947] store0"
    by code_simp
  have h3: "not_acquired (acquire_lock env_busy key_march (uuid env_busy) 30 5)"
    by code_simp
  have k: "LockKey (normalize_accommodation_id (rq_accommodation_id rq_march)) 738946 738948 = key_march"
    by (simp add: key_march_def rq_march_def)
  have u: "uuid env_busy = ''owner-a''"
    by (simp add: env_busy_def env0_def)
  from lock_busy_conflict [OF h1 h2] h3 k u
  have "create_booking app_lock env_busy rq_march store0 =
       (Inl (HTTPException 409 Busy),
        store0\<lparr>lock_log := lock_log store0 @ [Acquire key_march ''owner-a'' 30 5]\<rparr>)"
    by simp
  with h1 h2 h3 show ?thesis by (simp add: store0_def)
qed

subsection \<open>Release of the lock\<close>

text \<open>
  Claim C8. On the lock-guarded path, once the lock manager has returned an owner, the
  calls made to it are the acquisition and then one release of the same key by that
  owner, whatever the critical section did: a booking made, an overlap found, a failed
  occupancy insert with or without a failing rollback, or an exception of any store call.
  The response, the bookings and the occupancies are the same for every behaviour of
  \<^verbatim>\<open>release_lock\<close>; only the log tells whether it raised.
\<close>

theorem lock_released_on_every_exit:
  assumes "prepare a env rq = Inr (d, ci, co, nights)"
    and "lock_path_taken a env d nights s"
    and "acquire_lock env (lock_key_of d ci co) (uuid env) 30 5 = Some ow"
    and "ow \<noteq> []"
  shows "lock_log (snd (create_booking a env rq s)) =
           lock_log s @
           [Acquire (lock_key_of d ci co) (uuid env) 30 5,
            Release (lock_key_of d ci co) ow (release_lock env (lock_key_of d ci co) ow)]
     \<and> (\<forall>f. fst (create_booking a (env\<lparr>release_lock := f\<rparr>) rq s) = fst (create_booking a env rq s)
            \<and> bookings (snd (create_booking a (env\<lparr>release_lock := f\<rparr>) rq s)) =
                bookings (snd (create_booking a env rq s))
            \<and> occupancies (snd (create_booking a (env\<lparr>release_lock := f\<rparr>) rq s)) =
                occupancies (snd (create_booking a env rq s)))"
proof -
  have "create_booking a env rq s = after_transaction env d ci co nights None s"
    using assms(1,2) by (simp add: create_booking_prepared reserve_lock_path)
  then have "lock_log (snd (create_booking a env rq s)) =
      lock_log (snd (lock_guarded_path env d ci co nights s))"
    by (simp add: after_transaction_None_lock_log)
  then have log: "lock_log (snd (create_booking a env rq s)) =
           lock_log s @
           [Acquire (lock_key_of d ci co) (uuid env) 30 5,
            Release (lock_key_of d ci co) ow (release_lock env (lock_key_of d ci co) ow)]"
    using assms(3,4) by (simp add: lock_guarded_path_granted)
  have same: "fst (create_booking a (env\<lparr>release_lock := f\<rparr>) rq s) = fst (create_booking a env rq s)
            \<and> bookings (snd (create_booking a (env\<lparr>release_lock := f\<rparr>) rq s)) =
                bookings (snd (create_booking a env rq s))
            \<and> occupancies (snd (create_booking a (env\<lparr>release_lock := f\<rparr>) rq s)) =
                occupancies (snd (create_booking a env rq s))" for f
  proof -
    from create_booking_release_lock [where a = a and env = env and f = f and rq = rq and s = s]
    have u: "unlogged (snd (create_booking a (env\<lparr>release_lock := f\<rparr>) rq s)) =
       unlogged (snd (create_booking a env rq s))"
      and r: "fst (create_booking a (env\<lparr>release_lock := f\<rparr>) rq s) = fst (create_booking a env rq s)"
      by simp_all
    from u have "bookings (unlogged (snd (create_booking a (env\<lparr>release_lock := f\<rparr>) rq s))) =
        bookings (unlogged (snd (create_booking a env rq s)))"
      and "occupancies (unlogged (snd (create_booking a (env\<lparr>release_lock := f\<rparr>) rq s))) =
        occupancies (unlogged (snd (create_booking a env rq s)))"
      by simp_all
    with r show ?thesis by (simp add: unlogged_def)
  qed
  from log same show ?thesis by blast
qed

text \<open>
  The occupancy insert fails and \<^verbatim>\<open>release_lock\<close> raises: the response is the 409 of the
  run in which the release succeeds.
\<close>

theorem lock_released_on_every_exit_witness:
  "prepare app_lock env_release_fails rq_march =
      Inr (booking_dict env_release_fails rq_march, 738946, 738948, [738946, 738947])
   \<and> lock_path_taken app_lock env_release_fails (booking_dict env_release_fails rq_march) [738946, 738947] store0
   \<and> acquire_lock env_release_fails key_march ''owner-a'' 30 5 = Some ''owner-a''
   \<and> lock_log (snd (create_booking app_lock env_release_fails rq_march store0)) =
       [Acquire key_march ''owner-a'' 30 5, Release key_march ''owner-a'' (Some PyMongoError)]
   \<and> fst (create_booking app_lock env_release_fails rq_march store0) =
       fst (create_booking app_lock env_insert_fails rq_march store0)
   \<and> fst (create_booking app_lock env_insert_fails rq_march store0) = Inl (HTTPException 409 AlreadyBooked)"
proof -
  have h1: "prepare app_lock env_release_fails rq_march =
      Inr (booking_dict env_release_fails rq_march, 738946, 738948, [738946, 738947])"
    by code_simp
  have h2: "lock_path_taken app_lock env_release_fails (booking_dict env_release_fails rq_march)
      [738946, 738947] store0"
    by code_simp
  have k: "lock_key_of (booking_dict env_release_fails rq_march) 738946 738948 = key_march"
    by code_simp
  have u: "uuid env_release_fails = ''owner-a''"
    by code_simp
  have h3: "acquire_lock env_release_fails (lock_key_of (booking_dict env_release_fails rq_march) 738946 738948)
      (uuid env_release_fails) 30 5 = Some ''owner-a''"
    by code_simp
  have h4: "''owner-a'' \<noteq> []"
    by simp
  have r: "release_lock env_release_fails key_march ''owner-a'' = Some PyMongoError"
    by code_simp
  have e: "env_release_fails\<lparr>release_lock := (\<lambda>k ow. None)\<rparr> = env_insert_fails"
    by (simp add: env_release_fails_def env_insert_fails_def env0_def)
  note t = lock_released_on_every_exit [OF h1 h2 h3 h4, unfolded k u r]
  from t have l: "lock_log (snd (create_booking app_lock env_release_fails rq_march store0)) =
       [Acquire key_march ''owner-a'' 30 5, Release key_march ''owner-a'' (Some PyMongoError)]"
    by (simp add: store0_def)
  from t have "fst (create_booking app_lock (env_release_fails\<lparr>release_lock := (\<lambda>k ow. None)\<rparr>) rq_march store0) =
       fst (create_booking app_lock env_release_fails rq_march store0)"
    by blast
  then have same: "fst (create_booking app_lock env_release_fails rq_march store0) =
       fst (create_booking app_lock env_insert_fails rq_march store0)"
    by (simp add: e)
  have c: "fst (create_booking app_lock env_insert_fails rq_march store0) = Inl (HTTPException 409 AlreadyBooked)"
    by code_simp
  have a: "acquire_lock env_release_fails key_march ''owner-a'' 30 5 = Some ''owner-a''"
    using h3 by (simp add: k u)
  from h1 h2 a l same c show ?thesis by simp
qed

subsection \<open>Releasing the occupancies of a booking\<close>







subsection \<open>The stored \<^verbatim>\<open>accommodation_id\<close>\<close>

text \<open>
  Claim C10. Every booking in the store after \<^verbatim>\<open>create_booking\<close> was there before or
  has the normalised \<^verbatim>\<open>accommodation_id\<close> of the request. Every booking in the store
  after \<^verbatim>\<open>update_booking\<close> was there before, or has the normalised
  \<^verbatim>\<open>accommodation_id\<close> of the update when the update gives one, and otherwise the one
  of a booking stored before. The normalised value is always a list, and that of a single
  string \<open>x\<close> is the list \<open>[x]\<close>. Hence both handlers keep the invariant that every stored
  booking has a list.
\<close>

theorem accommodation_id_stored_as_list:
  "(\<forall>b \<in> set (bookings (snd (create_booking a env rq s))).
       b \<in> set (bookings s) \<or> bk_accommodation_id b = normalize_accommodation_id (rq_accommodation_id rq))
   \<and> (\<forall>b \<in> set (bookings (snd (update_booking a env booking_id u s))).
       b \<in> set (bookings s)
       \<or> (case up_accommodation_id u of
             Some v \<Rightarrow> bk_accommodation_id b = normalize_accommodation_id v
           | None \<Rightarrow> bk_accommodation_id b \<in> bk_accommodation_id ` set (bookings s)))
   \<and> (\<forall>v. is_list (normalize_accommodation_id v))
   \<and> (\<forall>x. normalize_accommodation_id (Str x) = Lst [x])
   \<and> (all_lists s \<longrightarrow>
        all_lists (snd (create_booking a env rq s))
        \<and> all_lists (snd (update_booking a env booking_id u s)))"
proof (intro conjI)
  show "\<forall>b \<in> set (bookings (snd (create_booking a env rq s))).
       b \<in> set (bookings s) \<or> bk_accommodation_id b = normalize_accommodation_id (rq_accommodation_id rq)"
    by (rule create_booking_bookings) (simp_all add: booking_dict_def)
  show "\<forall>b \<in> set (bookings (snd (update_booking a env booking_id u s))).
       b \<in> set (bookings s)
       \<or> (case up_accommodation_id u of
             Some v \<Rightarrow> bk_accommodation_id b = normalize_accommodation_id v
           | None \<Rightarrow> bk_accommodation_id b \<in> bk_accommodation_id ` set (bookings s))"
    by (rule update_booking_bookings) (auto simp: apply_set_accommodation_id split: option.splits)
  show "\<forall>v. is_list (normalize_accommodation_id v)"
    by (simp add: is_list_normalize)
  show "\<forall>x. normalize_accommodation_id (Str x) = Lst [x]"
    by simp
  show "all_lists s \<longrightarrow>
        all_lists (snd (create_booking a env rq s))
        \<and> all_lists (snd (update_booking a env booking_id u s))"
  proof (intro impI conjI)
    assume inv: "all_lists s"
    then have i: "\<forall>b \<in> set (bookings s). is_list (bk_accommodation_id b)"
      by (simp add: all_lists_def list_all_iff)
    have "\<forall>b \<in> set (bookings (snd (create_booking a env rq s))). is_list (bk_accommodation_id b)"
      using i by (rule create_booking_bookings) (simp add: booking_dict_def is_list_normalize)
    then show "all_lists (snd (create_booking a env rq s))"
      by (simp add: all_lists_def list_all_iff)
    have "\<forall>b \<in> set (bookings (snd (update_booking a env booking_id u s))). is_list (bk_accommodation_id b)"
      using i
      by (rule update_booking_bookings)
        (auto simp: apply_set_accommodation_id is_list_normalize i split: option.splits)
    then show "all_lists (snd (update_booking a env booking_id u s))"
      by (simp add: all_lists_def list_all_iff)
  qed
qed

text \<open>
  A request and an update that each name a single resource.
\<close>

theorem accommodation_id_stored_as_list_witness:
  "rq_accommodation_id rq_march = Str ''R''
   \<and> map bk_accommodation_id (bookings (snd (create_booking app_lock env0 rq_march store0))) = [Lst [''R'']]
   \<and> up_accommodation_id up_resource = Some (Str ''S'')
   \<and> map bk_accommodation_id (bookings (snd (update_booking app_lock env0 id_1 up_resource store_booked))) =
       [Lst [''S'']]
   \<and> all_lists store_booked
   \<and> all_lists (snd (create_booking app_lock env_second rq_overlap store_booked))
   \<and> all_lists (snd (update_booking app_lock env0 id_1 up_resource store_booked))"
proof -
  have a1: "rq_accommodation_id rq_march = Str ''R''" by code_simp
  have a2: "up_accommodation_id up_resource = Some (Str ''S'')" by code_simp
  have inv: "all_lists store_booked" by code_simp
  have b1: "length (bookings (snd (create_booking app_lock env0 rq_march store0))) = 1" by code_simp
  have b2: "length (bookings (snd (update_booking app_lock env0 id_1 up_resource store_booked))) = 1"
    by code_simp
  have n2: "set (bookings (snd (update_booking app_lock env0 id_1 up_resource store_booked))) \<inter> set (bookings store_booked) = {}"
    by code_simp
  note t1 = accommodation_id_stored_as_list [of app_lock env0 rq_march store0 id_1 up_resource]
  note t2 = accommodation_id_stored_as_list [of app_lock env_second rq_overlap store_booked id_1 up_resource]
  note t3 = accommodation_id_stored_as_list [of app_lock env0 rq_march store_booked id_1 up_resource]
  from t1 a1 have "\<forall>b \<in> set (bookings (snd (create_booking app_lock env0 rq_march store0))).
      bk_accommodation_id b = Lst [''R'']"
    by (simp add: store0_def)
  with b1 have c1: "map bk_accommodation_id (bookings (snd (create_booking app_lock env0 rq_march store0))) = [Lst [''R'']]"
    by (cases "bookings (snd (create_booking app_lock env0 rq_march store0))") auto
  from t3 a2 n2 have "\<forall>b \<in> set (bookings (snd (update_booking app_lock env0 id_1 up_resource store_booked))).
      bk_accommodation_id b = Lst [''S'']"
    by auto
  with b2 have c2: "map bk_accommodation_id (bookings (snd (update_booking app_lock env0 id_1 up_resource store_booked))) = [Lst [''S'']]"
    by (cases "bookings (snd (update_booking app_lock env0 id_1 up_resource store_booked))") auto
  from t2 inv have c3: "all_lists (snd (create_booking app_lock env_second rq_overlap store_booked))"
    by blast
  from t3 inv have c4: "all_lists (snd (update_booking app_lock env0 id_1 up_resource store_booked))"
    by blast
  from a1 c1 a2 c2 inv c3 c4 show ?thesis by blast
qed

end
